theory Spec2Isabelle
  imports Main "HOL-Library.List_Lexorder" "HOL-Library.Char_ord"
begin

section \<open>h11: the Connection object of \<^verbatim>\<open>h11/_connection.py\<close>\<close>

text \<open>
  Naming: Isabelle identifiers cannot start with an underscore, so a Python name
  \<^verbatim>\<open>_foo\<close> is written \<open>u_foo\<close> here (\<^verbatim>\<open>_body_framing\<close> is \<open>u_body_framing\<close>,
  the attribute \<^verbatim>\<open>self._cstate\<close> is the field \<open>u_cstate\<close>). Methods of
  \<^verbatim>\<open>ConnectionState\<close> carry the prefix \<open>cs_\<close>.
\<close>

subsection \<open>Bytes\<close>

text \<open>Python \<^verbatim>\<open>bytes\<close> are lists of characters; \<open><\<close> on them is the lexicographic
  order on byte values, a proper prefix being smaller, as in Python.\<close>

type_synonym bytes = string

text \<open>\<^verbatim>\<open>bytes.lower()\<close>: only the ASCII letters A-Z change.\<close>

definition lower_byte :: "char \<Rightarrow> char" where
  "lower_byte c =
     (case map_of (zip ''ABCDEFGHIJKLMNOPQRSTUVWXYZ'' ''abcdefghijklmnopqrstuvwxyz'') c of
        Some d \<Rightarrow> d
      | None \<Rightarrow> c)"

definition bytes_lower :: "bytes \<Rightarrow> bytes" where
  "bytes_lower = map lower_byte"

text \<open>\<^verbatim>\<open>bytes.strip()\<close> removes leading and trailing ASCII whitespace:
  space, tab, line feed, vertical tab, form feed, carriage return.\<close>

definition is_space :: "char \<Rightarrow> bool" where
  "is_space c = (c \<in> set [CHR '' '', CHR 0x09, CHR 0x0A, CHR 0x0B, CHR 0x0C, CHR 0x0D])"

definition bytes_strip :: "bytes \<Rightarrow> bytes" where
  "bytes_strip b = rev (dropWhile is_space (rev (dropWhile is_space b)))"

text \<open>\<^verbatim>\<open>b.split(b",")\<close>: always at least one piece; an empty input gives one empty piece.\<close>

fun bytes_split :: "char \<Rightarrow> bytes \<Rightarrow> bytes list" where
  "bytes_split d [] = [[]]"
| "bytes_split d (c # cs) =
     (if c = d then [] # bytes_split d cs
      else (case bytes_split d cs of
              w # ws \<Rightarrow> (c # w) # ws
            | [] \<Rightarrow> [[c]]))"

text \<open>
  \<^verbatim>\<open>int(b)\<close> on bytes: surrounding whitespace is ignored, one optional sign, then decimal
  digits, where single underscores may separate digits; anything else raises ValueError.
\<close>

definition is_digit :: "char \<Rightarrow> bool" where
  "is_digit c = (c \<in> set ''0123456789'')"

definition digit_val :: "char \<Rightarrow> int" where
  "digit_val c = (case map_of (zip ''0123456789'' [0, 1, 2, 3, 4, 5, 6, 7, 8, 9]) c of
                    Some n \<Rightarrow> n
                  | None \<Rightarrow> 0)"

fun digits_value :: "int \<Rightarrow> bytes \<Rightarrow> int option" where
  "digits_value acc [] = Some acc"
| "digits_value acc (c # cs) =
     (if is_digit c then digits_value (acc * 10 + digit_val c) cs
      else if c = CHR ''_'' then
        (case cs of
           [] \<Rightarrow> None
         | d # ds \<Rightarrow> if is_digit d then digits_value (acc * 10 + digit_val d) ds else None)
      else None)"

subsection \<open>Errors\<close>

text \<open>
  Every exception the code can raise is a value. \<open>ProtocolError\<close> carries its message and
  the optional \<^verbatim>\<open>error_status_hint\<close>; \<open>AssertionError\<close> is a failed \<^verbatim>\<open>assert\<close>;
  \<open>ValueError\<close> is what \<^verbatim>\<open>int()\<close> raises; \<open>AttributeError\<close> is the read of an attribute
  that the event type does not have; \<open>KeyError\<close> is the lookup of a missing dictionary key.
\<close>

datatype error =
    ProtocolError string "int option"
  | RuntimeError string
  | AssertionError
  | ValueError
  | AttributeError
  | KeyError

definition py_int :: "bytes \<Rightarrow> error + int" where
  "py_int b =
     (let s = bytes_strip b;
          neg = (case s of c # _ \<Rightarrow> c = CHR ''-'' | [] \<Rightarrow> False);
          ds = (case s of c # cs \<Rightarrow> if c = CHR ''-'' \<or> c = CHR ''+'' then cs else s | [] \<Rightarrow> [])
      in case ds of
           [] \<Rightarrow> Inl ValueError
         | d # rest \<Rightarrow>
             if is_digit d then
               (case digits_value (digit_val d) rest of
                  None \<Rightarrow> Inl ValueError
                | Some n \<Rightarrow> Inr (if neg then - n else n))
             else Inl ValueError)"

subsection \<open>Events, roles, states\<close>

type_synonym headers = "(bytes \<times> bytes) list"

datatype role = CLIENT | SERVER

datatype state =
    IDLE | SEND_RESPONSE | SEND_BODY | DONE | MUST_CLOSE | CLOSED | ERROR
  | MIGHT_SWITCH_PROTOCOL | SWITCHED_PROTOCOL

text \<open>The sentinels \<^verbatim>\<open>_SWITCH_UPGRADE\<close> and \<^verbatim>\<open>_SWITCH_CONNECT\<close>.\<close>

datatype switch = u_SWITCH_UPGRADE | u_SWITCH_CONNECT

text \<open>
  The event classes of the spec's data model (section 3):
  \<open>Request method target headers http_version\<close>,
  \<open>InformationalResponse status_code headers http_version\<close>,
  \<open>Response status_code headers http_version\<close>, \<open>Data data\<close>,
  \<open>EndOfMessage headers\<close>, \<open>ConnectionClosed\<close> and \<open>Paused reason\<close>.
\<close>

datatype event =
    Request bytes bytes headers bytes
  | InformationalResponse int headers bytes
  | Response int headers bytes
  | Data bytes
  | EndOfMessage headers
  | ConnectionClosed
  | Paused state

text \<open>\<^verbatim>\<open>type(event)\<close>.\<close>

datatype event_type =
    RequestT | InformationalResponseT | ResponseT | DataT | EndOfMessageT
  | ConnectionClosedT | PausedT

fun type_of :: "event \<Rightarrow> event_type" where
  "type_of (Request _ _ _ _) = RequestT"
| "type_of (InformationalResponse _ _ _) = InformationalResponseT"
| "type_of (Response _ _ _) = ResponseT"
| "type_of (Data _) = DataT"
| "type_of (EndOfMessage _) = EndOfMessageT"
| "type_of ConnectionClosed = ConnectionClosedT"
| "type_of (Paused _) = PausedT"

text \<open>Attribute reads; \<open>None\<close> where the event class has no such attribute.\<close>

fun headers_of :: "event \<Rightarrow> headers option" where
  "headers_of (Request _ _ hs _) = Some hs"
| "headers_of (InformationalResponse _ hs _) = Some hs"
| "headers_of (Response _ hs _) = Some hs"
| "headers_of (EndOfMessage hs) = Some hs"
| "headers_of _ = None"

fun http_version_of :: "event \<Rightarrow> bytes option" where
  "http_version_of (Request _ _ _ v) = Some v"
| "http_version_of (InformationalResponse _ _ v) = Some v"
| "http_version_of (Response _ _ v) = Some v"
| "http_version_of _ = None"

subsection \<open>Header utilities\<close>

text \<open>
  Modelled from the spec: \<^verbatim>\<open>get_comma_header\<close>, \<^verbatim>\<open>set_comma_header\<close> and
  \<^verbatim>\<open>has_expect_100_continue\<close> live in \<^verbatim>\<open>h11/_headers.py\<close>, which is not among the
  sources. Section 4.2 of the spec: ``\<^verbatim>\<open>get_comma_header(headers, name)\<close> returns the
  concatenation of all values with the given case-insensitive name, split on commas, each
  element trimmed of surrounding whitespace, lowercased. \<^verbatim>\<open>set_comma_header(headers, name,
  values)\<close> removes all existing entries with that name and appends one entry per value.
  \<^verbatim>\<open>has_expect_100_continue(request)\<close> is true iff the request has HTTP version \<open>\<ge> 1.1\<close>
  and a case-insensitive Expect header containing 100-continue.''
\<close>

definition name_matches :: "bytes \<Rightarrow> bytes \<times> bytes \<Rightarrow> bool" where
  "name_matches name h = (bytes_lower (fst h) = bytes_lower name)"

definition comma_items :: "bytes \<Rightarrow> bytes list" where
  "comma_items v = map (\<lambda>w. bytes_lower (bytes_strip w)) (bytes_split CHR '','' v)"

definition get_comma_header :: "headers \<Rightarrow> bytes \<Rightarrow> bytes list" where
  "get_comma_header hs name =
     concat (map (\<lambda>h. comma_items (snd h)) (filter (name_matches name) hs))"

definition set_comma_header :: "headers \<Rightarrow> bytes \<Rightarrow> bytes list \<Rightarrow> headers" where
  "set_comma_header hs name vals =
     filter (\<lambda>h. \<not> name_matches name h) hs @ map (\<lambda>v. (name, v)) vals"

fun has_expect_100_continue :: "event \<Rightarrow> bool" where
  "has_expect_100_continue (Request _ _ hs v) =
     (\<not> v < ''1.1'' \<and> ''100-continue'' \<in> set (get_comma_header hs ''Expect''))"
| "has_expect_100_continue _ = False"

subsection \<open>Keep-alive and body framing (module-level functions)\<close>

text \<open>
  \<^verbatim>\<open>_keep_alive(event)\<close>. \<^verbatim>\<open>event.headers\<close> raises AttributeError on an event without
  headers; \<^verbatim>\<open>getattr(event, "http_version", b"1.1")\<close> has a default.
\<close>

definition u_keep_alive :: "event \<Rightarrow> error + bool" where
  "u_keep_alive event =
     (case headers_of event of
        None \<Rightarrow> Inl AttributeError
      | Some hs \<Rightarrow>
          (let connection = get_comma_header hs ''Connection'' in
           if ''close'' \<in> set connection then Inr False
           else if (case http_version_of event of Some v \<Rightarrow> v | None \<Rightarrow> ''1.1'') < ''1.1''
             then Inr False
           else Inr True))"

text \<open>
  The result of \<^verbatim>\<open>_body_framing\<close>: \<^verbatim>\<open>("content-length", (count,))\<close>,
  \<^verbatim>\<open>("chunked", ())\<close> or \<^verbatim>\<open>("http/1.0", ())\<close>.
\<close>

datatype framing = ContentLength int | Chunked | Http10

text \<open>Steps 2 to 4 of \<^verbatim>\<open>_body_framing\<close>, which only read the headers and the event's type.\<close>

definition framing_from_headers :: "bool \<Rightarrow> headers \<Rightarrow> error + framing" where
  "framing_from_headers is_request hs =
     (let transfer_encodings = get_comma_header hs ''Transfer-Encoding'' in
      if transfer_encodings \<noteq> [] then
        (if transfer_encodings = [''chunked''] then Inr Chunked else Inl AssertionError)
      else
        (case get_comma_header hs ''Content-Length'' of
           c # _ \<Rightarrow> (case py_int c of Inl e \<Rightarrow> Inl e | Inr n \<Rightarrow> Inr (ContentLength n))
         | [] \<Rightarrow> if is_request then Inr (ContentLength 0) else Inr Http10))"

text \<open>
  \<^verbatim>\<open>_body_framing(request_method, event)\<close>; \<open>event\<close> is \<open>None\<close> when the caller passed
  Python's \<^verbatim>\<open>None\<close>. The first \<^verbatim>\<open>assert\<close> rejects everything but a Request or a
  Response; the second one a Response whose status is below 200.
\<close>

fun u_body_framing :: "bytes option \<Rightarrow> event option \<Rightarrow> error + framing" where
  "u_body_framing request_method (Some (Response status_code hs v)) =
     (if status_code \<in> {204, 304}
         \<or> request_method = Some ''HEAD''
         \<or> (request_method = Some ''CONNECT'' \<and> 200 \<le> status_code \<and> status_code < 300)
      then Inr (ContentLength 0)
      else if \<not> 200 \<le> status_code then Inl AssertionError
      else framing_from_headers False hs)"
| "u_body_framing request_method (Some (Request m t hs v)) = framing_from_headers True hs"
| "u_body_framing request_method _ = Inl AssertionError"

subsection \<open>ConnectionState\<close>

text \<open>
  The attributes of \<^verbatim>\<open>ConnectionState\<close> that \<^verbatim>\<open>_connection.py\<close> reads:
  \<^verbatim>\<open>keep_alive\<close>, \<^verbatim>\<open>pending_switch_proposals\<close> and the dictionary \<^verbatim>\<open>states\<close>,
  which has exactly the keys CLIENT and SERVER.
\<close>

record ConnectionState =
  keep_alive :: bool
  pending_switch_proposals :: "switch set"
  states :: "role \<Rightarrow> state"

text \<open>
  Modelled from the spec: the class \<^verbatim>\<open>ConnectionState\<close> is defined in \<^verbatim>\<open>h11/_state.py\<close>,
  which is not among the sources; only its callers are. From the spec's data model
  (section 3): \<^verbatim>\<open>keep_alive\<close> ``starts true; latches to false'', both roles start in IDLE
  and the set of pending proposals starts empty.
\<close>

definition cs_init :: ConnectionState where
  "cs_init = \<lparr>keep_alive = True, pending_switch_proposals = {}, states = (\<lambda>_. IDLE)\<rparr>"

text \<open>
  Modelled from the spec: \<^verbatim>\<open>ConnectionState.process_error\<close> (in \<^verbatim>\<open>_state.py\<close>).
  Section 4.5: ``Any role may transition to ERROR at any time via \<^verbatim>\<open>process_error\<close>'';
  section 7: ``The other role is unaffected''.
\<close>

definition cs_process_error :: "role \<Rightarrow> ConnectionState \<Rightarrow> ConnectionState" where
  "cs_process_error role cs = cs\<lparr>states := (states cs)(role := ERROR)\<rparr>"

text \<open>
  Modelled from the spec: \<^verbatim>\<open>ConnectionState.process_keep_alive_disabled\<close> (in
  \<^verbatim>\<open>_state.py\<close>). Section 4.5: ``\<^verbatim>\<open>keep_alive\<close> is latched to false'' and, for either
  role, ``DONE \<open>\<rightarrow>\<close> MUST_CLOSE if \<^verbatim>\<open>keep_alive\<close> is false''.
\<close>

definition cs_process_keep_alive_disabled :: "ConnectionState \<Rightarrow> ConnectionState" where
  "cs_process_keep_alive_disabled cs =
     cs\<lparr>keep_alive := False,
        states := (\<lambda>r. if states cs r = DONE then MUST_CLOSE else states cs r)\<rparr>"

text \<open>
  Modelled from the spec: \<^verbatim>\<open>ConnectionState.process_client_switch_proposals\<close> (in
  \<^verbatim>\<open>_state.py\<close>). Section 4.5: ``When a client Request carries Upgrade, UPGRADE is added to
  pending proposals. When method is CONNECT, CONNECT is added.''
\<close>

definition cs_process_client_switch_proposals ::
    "switch list \<Rightarrow> ConnectionState \<Rightarrow> ConnectionState" where
  "cs_process_client_switch_proposals proposals cs =
     cs\<lparr>pending_switch_proposals := pending_switch_proposals cs \<union> set proposals\<rparr>"

text \<open>
  Modelled from the spec: \<^verbatim>\<open>ConnectionState.prepare_to_reuse\<close> (in \<^verbatim>\<open>_state.py\<close>).
  Section 4.5: ``\<^verbatim>\<open>prepare_to_reuse\<close> requires both roles in DONE and \<^verbatim>\<open>keep_alive\<close> true;
  otherwise fails. It resets both roles to IDLE''; section 7 lists ``reuse while not both
  DONE'' among the protocol errors.
\<close>

definition cs_prepare_to_reuse :: "ConnectionState \<Rightarrow> error + ConnectionState" where
  "cs_prepare_to_reuse cs =
     (if states cs CLIENT = DONE \<and> states cs SERVER = DONE \<and> keep_alive cs
      then Inr (cs\<lparr>states := (\<lambda>_. IDLE)\<rparr>)
      else Inl (ProtocolError ''not in a reusable state'' None))"

text \<open>
  Modelled from the spec: \<^verbatim>\<open>ConnectionState.process_event(role, event_type,
  server_switch_event)\<close> (in \<^verbatim>\<open>_state.py\<close>). The spec gives the transitions of the two
  coupled state machines in prose (section 4.5); they are taken here as a parameter
  \<open>tr\<close>, the transition table: for the current \<^verbatim>\<open>ConnectionState\<close>, a role, an event
  type and the server's switch event it gives the new \<^verbatim>\<open>states\<close> and the new pending
  proposals, or \<open>None\<close> for an event that is invalid in the current state, which is a
  protocol error (section 7). The table has no access to \<^verbatim>\<open>keep_alive\<close>: by section 4.5
  only the keep-alive latch changes it.
\<close>

type_synonym transitions =
  "role \<Rightarrow> event_type \<Rightarrow> switch option \<Rightarrow> ConnectionState
     \<Rightarrow> ((role \<Rightarrow> state) \<times> switch set) option"

definition cs_process_event ::
    "transitions \<Rightarrow> role \<Rightarrow> event_type \<Rightarrow> switch option \<Rightarrow> ConnectionState
       \<Rightarrow> error + ConnectionState" where
  "cs_process_event tr role event_type server_switch_event cs =
     (case tr role event_type server_switch_event cs of
        None \<Rightarrow> Inl (ProtocolError ''event not valid in this state'' None)
      | Some (new_states, new_pending) \<Rightarrow>
          Inr (cs\<lparr>states := new_states, pending_switch_proposals := new_pending\<rparr>))"

subsection \<open>Readers, writers and the receive buffer\<close>

text \<open>
  The registries \<^verbatim>\<open>READERS\<close> and \<^verbatim>\<open>WRITERS\<close> (in \<^verbatim>\<open>_readers.py\<close> and
  \<^verbatim>\<open>_writers.py\<close>) and the transition table are not among the sources; the Connection code
  is modelled for any of them. \<open>'r\<close> and \<open>'w\<close> are the types of reader and writer objects
  with their internal state.
  \<^item> \<open>READERS env (role, state)\<close> is \<^verbatim>\<open>READERS.get((role, state))\<close>;
  \<^item> \<open>READERS_SEND_BODY env framing\<close> is \<^verbatim>\<open>READERS[SEND_BODY][framing_type](*args)\<close>,
    \<open>None\<close> when the dictionary has no such key;
  \<^item> \<open>call_reader env r buf\<close> is the call \<^verbatim>\<open>r(buf)\<close>: it raises, returns an event or
    returns \<^verbatim>\<open>None\<close>, and leaves a new reader state and the bytes still buffered;
  \<^item> \<open>read_eof env r\<close> is \<open>None\<close> when \<^verbatim>\<open>hasattr(r, "read_eof")\<close> is false, and the
    outcome of \<^verbatim>\<open>r.read_eof()\<close> otherwise;
  \<^item> \<open>call_writer env w event\<close> is \<^verbatim>\<open>w(event, data_list.append)\<close>: it raises or gives
    the pieces appended to \<^verbatim>\<open>data_list\<close>, and leaves a new writer state.

  Modelled from the spec: \<^verbatim>\<open>ReceiveBuffer\<close> (in \<^verbatim>\<open>_receivebuffer.py\<close>, not among the
  sources) is, by section 4.1, a byte container to which bytes are appended and from which
  a reader consumes a prefix; \<^verbatim>\<open>compress()\<close> only drops bytes already consumed. It is the
  list of the bytes not yet consumed, so \<^verbatim>\<open>compress()\<close> changes nothing.
\<close>

record ('r, 'w) env =
  TRANSITIONS :: transitions
  READERS :: "role \<times> state \<Rightarrow> 'r option"
  READERS_SEND_BODY :: "framing \<Rightarrow> 'r option"
  call_reader :: "'r \<Rightarrow> bytes \<Rightarrow> (error + event option) \<times> 'r \<times> bytes"
  read_eof :: "'r \<Rightarrow> ((error + event option) \<times> 'r) option"
  WRITERS :: "role \<times> state \<Rightarrow> 'w option"
  WRITERS_SEND_BODY :: "framing \<Rightarrow> 'w option"
  call_writer :: "'w \<Rightarrow> event \<Rightarrow> (error + bytes list) \<times> 'w"

subsection \<open>The Connection class\<close>

record ('r, 'w) Connection =
  u_max_buffer_size :: int
  our_role :: role
  their_role :: role
  u_cstate :: ConnectionState
  u_writer :: "'w option"
  u_reader :: "'r option"
  u_receive_buffer :: bytes
  u_receive_buffer_closed :: bool
  their_http_version :: "bytes option"
  u_request_method :: "bytes option"
  client_is_waiting_for_100_continue :: bool

definition our_state :: "('r, 'w) Connection \<Rightarrow> state" where
  "our_state c = states (u_cstate c) (our_role c)"

definition their_state :: "('r, 'w) Connection \<Rightarrow> state" where
  "their_state c = states (u_cstate c) (their_role c)"

definition trailing_data :: "('r, 'w) Connection \<Rightarrow> bytes \<times> bool" where
  "trailing_data c = (u_receive_buffer c, u_receive_buffer_closed c)"

text \<open>
  \<^verbatim>\<open>_get_io_object(role, event, io_dict)\<close>; the registry \<^verbatim>\<open>io_dict\<close> is given by its two
  lookups.
\<close>

definition u_get_io_object ::
    "('r, 'w) Connection \<Rightarrow> role \<Rightarrow> event option \<Rightarrow> (role \<times> state \<Rightarrow> 'io option)
       \<Rightarrow> (framing \<Rightarrow> 'io option) \<Rightarrow> error + 'io option" where
  "u_get_io_object c role event io_get io_send_body =
     (let state = states (u_cstate c) role in
      if state = SEND_BODY then
        (case u_body_framing (u_request_method c) event of
           Inl e \<Rightarrow> Inl e
         | Inr framing \<Rightarrow>
             (case io_send_body framing of
                None \<Rightarrow> Inl KeyError
              | Some io \<Rightarrow> Inr (Some io)))
      else Inr (io_get (role, state)))"

text \<open>
  \<^verbatim>\<open>_respond_to_state_changes(old_states, event=None)\<close>. Every operation on the
  connection returns the outcome together with the connection as it is when the operation
  returns or raises: \<open>Inl e\<close> is the exception \<open>e\<close>.
\<close>

definition u_respond_to_state_changes ::
    "('r, 'w) env \<Rightarrow> ('r, 'w) Connection \<Rightarrow> (role \<Rightarrow> state) \<Rightarrow> event option
       \<Rightarrow> (error + unit) \<times> ('r, 'w) Connection" where
  "u_respond_to_state_changes env c old_states event =
     (case (if our_state c \<noteq> old_states (our_role c)
            then (case u_get_io_object c (our_role c) event (WRITERS env) (WRITERS_SEND_BODY env) of
                    Inl e \<Rightarrow> Inl e
                  | Inr w \<Rightarrow> Inr (c\<lparr>u_writer := w\<rparr>))
            else Inr c) of
        Inl e \<Rightarrow> (Inl e, c)
      | Inr c1 \<Rightarrow>
          (if their_state c1 \<noteq> old_states (their_role c1)
           then (case u_get_io_object c1 (their_role c1) event (READERS env) (READERS_SEND_BODY env) of
                   Inl e \<Rightarrow> (Inl e, c1)
                 | Inr r \<Rightarrow> (Inr (), c1\<lparr>u_reader := r\<rparr>))
           else (Inr (), c1)))"

text \<open>\<^verbatim>\<open>Connection.__init__\<close>; a role other than CLIENT or SERVER is excluded by the type.\<close>

definition Connection_init ::
    "('r, 'w) env \<Rightarrow> role \<Rightarrow> int \<Rightarrow> error + ('r, 'w) Connection" where
  "Connection_init env role max_buffer_size =
     (let c = \<lparr>u_max_buffer_size = max_buffer_size,
               our_role = role,
               their_role = (if role = CLIENT then SERVER else CLIENT),
               u_cstate = cs_init,
               u_writer = None,
               u_reader = None,
               u_receive_buffer = [],
               u_receive_buffer_closed = False,
               their_http_version = None,
               u_request_method = None,
               client_is_waiting_for_100_continue = False\<rparr>
      in case u_get_io_object c (our_role c) None (WRITERS env) (WRITERS_SEND_BODY env) of
           Inl e \<Rightarrow> Inl e
         | Inr w \<Rightarrow>
             (case u_get_io_object c (their_role c) None (READERS env) (READERS_SEND_BODY env) of
                Inl e \<Rightarrow> Inl e
              | Inr r \<Rightarrow> Inr (c\<lparr>u_writer := w, u_reader := r\<rparr>)))"

text \<open>\<^verbatim>\<open>_process_error(role)\<close>.\<close>

definition u_process_error ::
    "('r, 'w) env \<Rightarrow> ('r, 'w) Connection \<Rightarrow> role \<Rightarrow> (error + unit) \<times> ('r, 'w) Connection" where
  "u_process_error env c role =
     (let old_states = states (u_cstate c);
          c1 = c\<lparr>u_cstate := cs_process_error role (u_cstate c)\<rparr>
      in u_respond_to_state_changes env c1 old_states None)"

text \<open>
  \<^verbatim>\<open>prepare_to_reuse()\<close>. When \<^verbatim>\<open>self._cstate.prepare_to_reuse()\<close> raises nothing has
  been changed; the \<^verbatim>\<open>assert\<close> comes after the two assignments.
\<close>

definition prepare_to_reuse ::
    "('r, 'w) env \<Rightarrow> ('r, 'w) Connection \<Rightarrow> (error + unit) \<times> ('r, 'w) Connection" where
  "prepare_to_reuse env c =
     (let old_states = states (u_cstate c) in
      case cs_prepare_to_reuse (u_cstate c) of
        Inl e \<Rightarrow> (Inl e, c)
      | Inr cs \<Rightarrow>
          (let c1 = c\<lparr>u_cstate := cs, u_request_method := None\<rparr> in
           if client_is_waiting_for_100_continue c1 then (Inl AssertionError, c1)
           else u_respond_to_state_changes env c1 old_states None))"

text \<open>
  \<^verbatim>\<open>_client_switch_events(event)\<close>, the list of what the generator yields. It is only
  called on a Request.
\<close>

fun u_client_switch_events :: "event \<Rightarrow> switch list" where
  "u_client_switch_events (Request m t hs v) =
     (if m = ''CONNECT'' then [u_SWITCH_CONNECT] else [])
     @ (if get_comma_header hs ''Upgrade'' \<noteq> [] then [u_SWITCH_UPGRADE] else [])"
| "u_client_switch_events _ = []"

text \<open>\<^verbatim>\<open>_server_switch_event(event)\<close>.\<close>

fun u_server_switch_event :: "('r, 'w) Connection \<Rightarrow> event \<Rightarrow> switch option" where
  "u_server_switch_event c (InformationalResponse status_code hs v) =
     (if status_code = 101 then Some u_SWITCH_UPGRADE else None)"
| "u_server_switch_event c (Response status_code hs v) =
     (if u_SWITCH_CONNECT \<in> pending_switch_proposals (u_cstate c)
         \<and> 200 \<le> status_code \<and> status_code < 300
      then Some u_SWITCH_CONNECT else None)"
| "u_server_switch_event c _ = None"

text \<open>
  \<^verbatim>\<open>_process_event(role, event)\<close>: ``All events go through here''. The state machine
  comes first; the updates it triggers follow in the order of the source. The keep-alive
  test \<^verbatim>\<open>type(event) in (Request, Response) and not _keep_alive(event)\<close> calls
  \<^verbatim>\<open>_keep_alive\<close> only on a Request or a Response.
\<close>

definition u_process_event ::
    "('r, 'w) env \<Rightarrow> ('r, 'w) Connection \<Rightarrow> role \<Rightarrow> event
       \<Rightarrow> (error + unit) \<times> ('r, 'w) Connection" where
  "u_process_event env c role event =
     (let old_states = states (u_cstate c);
          c1 = (if role = CLIENT \<and> type_of event = RequestT
                then c\<lparr>u_cstate := cs_process_client_switch_proposals
                                     (u_client_switch_events event) (u_cstate c)\<rparr>
                else c);
          server_switch_event = (if role = SERVER then u_server_switch_event c1 event else None)
      in case cs_process_event (TRANSITIONS env) role (type_of event) server_switch_event
                (u_cstate c1) of
           Inl e \<Rightarrow> (Inl e, c1)
         | Inr cs \<Rightarrow>
             (let c2 = c1\<lparr>u_cstate := cs\<rparr>;
                  c3 = (case event of
                          Request m t hs v \<Rightarrow> c2\<lparr>u_request_method := Some m\<rparr>
                        | _ \<Rightarrow> c2);
                  c4 = (if role = their_role c3
                           \<and> type_of event \<in> {RequestT, ResponseT, InformationalResponseT}
                        then c3\<lparr>their_http_version := http_version_of event\<rparr>
                        else c3)
              in case (if type_of event \<in> {RequestT, ResponseT} then u_keep_alive event
                       else Inr True) of
                   Inl e \<Rightarrow> (Inl e, c4)
                 | Inr ka \<Rightarrow>
                     (let c5 = (if \<not> ka
                                then c4\<lparr>u_cstate := cs_process_keep_alive_disabled (u_cstate c4)\<rparr>
                                else c4);
                          c6 = (if type_of event = RequestT \<and> has_expect_100_continue event
                                then c5\<lparr>client_is_waiting_for_100_continue := True\<rparr>
                                else c5);
                          c7 = (if type_of event \<in> {InformationalResponseT, ResponseT}
                                then c6\<lparr>client_is_waiting_for_100_continue := False\<rparr>
                                else c6);
                          c8 = (if role = CLIENT \<and> type_of event \<in> {DataT, EndOfMessageT}
                                then c7\<lparr>client_is_waiting_for_100_continue := False\<rparr>
                                else c7)
                      in u_respond_to_state_changes env c8 old_states (Some event))))"

subsection \<open>Receiving\<close>

text \<open>
  \<^verbatim>\<open>_next_receive_event()\<close>. The reader consumes from the buffer before the test
  \<^verbatim>\<open>not self._receive_buffer and self._receive_buffer_closed\<close> is made.
\<close>

definition u_next_receive_event ::
    "('r, 'w) env \<Rightarrow> ('r, 'w) Connection \<Rightarrow> (error + event option) \<times> ('r, 'w) Connection" where
  "u_next_receive_event env c =
     (let state = their_state c in
      if state = DONE \<and> u_receive_buffer c \<noteq> [] then (Inr (Some (Paused state)), c)
      else if state = MIGHT_SWITCH_PROTOCOL \<or> state = SWITCHED_PROTOCOL
        then (Inr (Some (Paused state)), c)
      else
        (case u_reader c of
           None \<Rightarrow> (Inl AssertionError, c)
         | Some r \<Rightarrow>
             (case call_reader env r (u_receive_buffer c) of
                (res, r1, buf1) \<Rightarrow>
                  (let c1 = c\<lparr>u_reader := Some r1, u_receive_buffer := buf1\<rparr> in
                   case res of
                     Inl e \<Rightarrow> (Inl e, c1)
                   | Inr (Some event) \<Rightarrow> (Inr (Some event), c1)
                   | Inr None \<Rightarrow>
                       if u_receive_buffer c1 = [] \<and> u_receive_buffer_closed c1 then
                         (case read_eof env r1 of
                            Some (res2, r2) \<Rightarrow> (res2, c1\<lparr>u_reader := Some r2\<rparr>)
                          | None \<Rightarrow> (Inr (Some ConnectionClosed), c1))
                       else (Inr None, c1)))))"

text \<open>
  The first step of \<^verbatim>\<open>receive_data\<close>: ``Update self._receive_buffer with new data''.
  \<open>data\<close> is \<open>None\<close> for Python's \<^verbatim>\<open>None\<close>.
\<close>

definition receive_data_update_buffer ::
    "('r, 'w) Connection \<Rightarrow> bytes option \<Rightarrow> (error + unit) \<times> ('r, 'w) Connection" where
  "receive_data_update_buffer c data =
     (case data of
        None \<Rightarrow> (Inr (), c)
      | Some d \<Rightarrow>
          if d \<noteq> [] then
            (if u_receive_buffer_closed c
             then (Inl (RuntimeError ''received close, then received more data?''), c)
             else (Inr (), c\<lparr>u_receive_buffer := u_receive_buffer c @ d\<rparr>))
          else (Inr (), c\<lparr>u_receive_buffer_closed := True\<rparr>))"

text \<open>
  The \<^verbatim>\<open>while True\<close> loop of \<^verbatim>\<open>receive_data\<close>: ``Read out all the events we can''.
  Nothing in \<^verbatim>\<open>_connection.py\<close> bounds the number of events a reader may produce, so the
  loop is a partial function: \<open>None\<close> is a loop that never ends.
\<close>

partial_function (option) receive_data_loop ::
    "('r, 'w) env \<Rightarrow> ('r, 'w) Connection \<Rightarrow> event list
       \<Rightarrow> ((error + event list) \<times> ('r, 'w) Connection) option" where
  "receive_data_loop env c events =
     (case u_next_receive_event env c of
        (Inl e, c1) \<Rightarrow> Some (Inl e, c1)
      | (Inr None, c1) \<Rightarrow> Some (Inr events, c1)
      | (Inr (Some event), c1) \<Rightarrow>
          (let events1 = events @ [event] in
           if type_of event = PausedT then Some (Inr events1, c1)
           else
             (case u_process_event env c1 (their_role c1) event of
                (Inl e, c2) \<Rightarrow> Some (Inl e, c2)
              | (Inr _, c2) \<Rightarrow>
                  if type_of event = ConnectionClosedT then Some (Inr events1, c2)
                  else receive_data_loop env c2 events1)))"

declare receive_data_loop.simps [code]

text \<open>
  What \<^verbatim>\<open>receive_data\<close> does after the loop: ``Buffer maintainence'', the check of the
  buffer size, and the check that a closed connection ended in Paused or ConnectionClosed.
\<close>

definition receive_data_finish ::
    "('r, 'w) Connection \<Rightarrow> event list \<Rightarrow> (error + event list) \<times> ('r, 'w) Connection" where
  "receive_data_finish c events =
     (if \<not> (events \<noteq> [] \<and> type_of (last events) = PausedT)
         \<and> int (length (u_receive_buffer c)) > u_max_buffer_size c
      then (Inl (ProtocolError ''Receive buffer too long'' (Some 431)), c)
      else if u_receive_buffer_closed c
              \<and> (events = [] \<or> type_of (last events) \<notin> {PausedT, ConnectionClosedT})
        then (Inl (ProtocolError ''peer unexpectedly closed connection'' None), c)
      else (Inr events, c))"

text \<open>The body of the \<^verbatim>\<open>try\<close> statement of \<^verbatim>\<open>receive_data\<close>.\<close>

definition receive_data_try ::
    "('r, 'w) env \<Rightarrow> ('r, 'w) Connection \<Rightarrow> bytes option
       \<Rightarrow> ((error + event list) \<times> ('r, 'w) Connection) option" where
  "receive_data_try env c data =
     (case receive_data_update_buffer c data of
        (Inl e, c0) \<Rightarrow> Some (Inl e, c0)
      | (Inr _, c0) \<Rightarrow>
          (case receive_data_loop env c0 [] of
             None \<Rightarrow> None
           | Some (Inl e, c1) \<Rightarrow> Some (Inl e, c1)
           | Some (Inr events, c1) \<Rightarrow> Some (receive_data_finish c1 events)))"

text \<open>
  The handler \<^verbatim>\<open>except: self._process_error(role); raise\<close> shared by \<^verbatim>\<open>receive_data\<close>
  and \<^verbatim>\<open>send_with_data_passthrough\<close>: an exception raised by \<^verbatim>\<open>_process_error\<close> itself
  would replace the one being handled.
\<close>

definition except_process_error ::
    "('r, 'w) env \<Rightarrow> ('r, 'w) Connection \<Rightarrow> role \<Rightarrow> error \<Rightarrow> (error + 'a) \<times> ('r, 'w) Connection" where
  "except_process_error env c role e =
     (case u_process_error env c role of
        (Inl e1, c1) \<Rightarrow> (Inl e1, c1)
      | (Inr _, c1) \<Rightarrow> (Inl e, c1))"

text \<open>\<^verbatim>\<open>receive_data(data)\<close>.\<close>

definition receive_data ::
    "('r, 'w) env \<Rightarrow> ('r, 'w) Connection \<Rightarrow> bytes option
       \<Rightarrow> ((error + event list) \<times> ('r, 'w) Connection) option" where
  "receive_data env c data =
     (if their_state c = ERROR
      then Some (Inl (ProtocolError ''Can't receive data when peer state is ERROR'' None), c)
      else
        (case receive_data_try env c data of
           None \<Rightarrow> None
         | Some (Inl e, c1) \<Rightarrow> Some (except_process_error env c1 (their_role c1) e)
         | Some (Inr events, c1) \<Rightarrow> Some (Inr events, c1)))"

subsection \<open>Sending\<close>

text \<open>
  \<^verbatim>\<open>_clean_up_response_headers_for_sending(response)\<close> works on a copy of the caller's
  list, \<^verbatim>\<open>headers = list(response.headers)\<close>, changes the copy in place with
  \<^verbatim>\<open>set_comma_header\<close> and ends with \<^verbatim>\<open>response.headers = headers\<close>. Whether the
  caller's list is touched is a question of aliasing, so the function is modelled on a
  store of list objects: an address is an index into the store, \<^verbatim>\<open>list(xs)\<close> allocates a
  new object at the end of the store, and \<^verbatim>\<open>set_comma_header(headers, name, values)\<close>
  replaces the object at the address \<^verbatim>\<open>headers\<close>. A Response object holds the address
  of its header list. \<^verbatim>\<open>sorted(connection)\<close> on a Python set is the sorted list of its
  elements.
\<close>

type_synonym store = "headers list"

record response_object =
  resp_status_code :: int
  resp_headers :: nat
  resp_http_version :: bytes

definition list_copy :: "store \<Rightarrow> nat \<Rightarrow> nat \<times> store" where
  "list_copy st a = (length st, st @ [st ! a])"

definition set_comma_header_in_place :: "store \<Rightarrow> nat \<Rightarrow> bytes \<Rightarrow> bytes list \<Rightarrow> store" where
  "set_comma_header_in_place st a name vals = st[a := set_comma_header (st ! a) name vals]"

definition response_event :: "response_object \<Rightarrow> store \<Rightarrow> event" where
  "response_event response st =
     Response (resp_status_code response) (st ! resp_headers response) (resp_http_version response)"

definition u_clean_up_response_headers_for_sending ::
    "('r, 'w) Connection \<Rightarrow> response_object \<Rightarrow> store \<Rightarrow> error + response_object \<times> store" where
  "u_clean_up_response_headers_for_sending c response st =
     (let (headers, st0) = list_copy st (resp_headers response) in
      case u_body_framing (u_request_method c) (Some (response_event response st0)) of
        Inl e \<Rightarrow> Inl e
      | Inr framing_type \<Rightarrow>
          (let (st1, need_close) =
                 (if framing_type \<in> {Chunked, Http10} then
                    (let s = set_comma_header_in_place st0 headers ''Content-Length'' [] in
                     if (case their_http_version c of None \<Rightarrow> True | Some tv \<Rightarrow> tv < ''1.1'')
                     then (set_comma_header_in_place s headers ''Transfer-Encoding'' [], True)
                     else (set_comma_header_in_place s headers ''Transfer-Encoding'' [''chunked''],
                           False))
                  else (st0, False));
               st2 =
                 (if \<not> keep_alive (u_cstate c) \<or> need_close then
                    (let connection =
                           insert ''close''
                             (set (get_comma_header (st1 ! headers) ''Connection'')
                                - {''keep-alive''})
                     in set_comma_header_in_place st1 headers ''Connection''
                          (sorted_list_of_set connection))
                  else st1)
           in Inr (response\<lparr>resp_headers := headers\<rparr>, st2)))"

text \<open>
  The clean-up as \<^verbatim>\<open>send_with_data_passthrough\<close> calls it, on an event that carries its
  headers: the caller's list is the only object of the store. The \<^verbatim>\<open>assert\<close> rejects an
  event that is not a Response.
\<close>

definition clean_up_response_event :: "('r, 'w) Connection \<Rightarrow> event \<Rightarrow> error + event" where
  "clean_up_response_event c event =
     (case event of
        Response status_code hs v \<Rightarrow>
          (case u_clean_up_response_headers_for_sending c
                  \<lparr>resp_status_code = status_code, resp_headers = 0, resp_http_version = v\<rparr> [hs] of
             Inl e \<Rightarrow> Inl e
           | Inr (response, st) \<Rightarrow> Inr (response_event response st))
      | _ \<Rightarrow> Inl AssertionError)"

text \<open>
  Lines 501 to 511 of \<^verbatim>\<open>send_with_data_passthrough\<close>, on the event as it is after the
  clean-up. \<open>writer\<close> is the snapshot taken before \<^verbatim>\<open>_process_event\<close>. The snapshot is
  still the connection's writer exactly when our state did not change, and then the state
  it has after the call stays in the connection.
\<close>

definition send_cleaned ::
    "('r, 'w) env \<Rightarrow> ('r, 'w) Connection \<Rightarrow> event
       \<Rightarrow> (error + bytes list option) \<times> ('r, 'w) Connection" where
  "send_cleaned env c event =
     (let writer = u_writer c in
      case u_process_event env c (our_role c) event of
        (Inl e, c1) \<Rightarrow> (Inl e, c1)
      | (Inr _, c1) \<Rightarrow>
          if type_of event = ConnectionClosedT then (Inr None, c1)
          else
            (case writer of
               None \<Rightarrow> (Inl AssertionError, c1)
             | Some w \<Rightarrow>
                 (case call_writer env w event of
                    (res, w1) \<Rightarrow>
                      (let c2 = (if our_state c1 = our_state c then c1\<lparr>u_writer := Some w1\<rparr>
                                 else c1)
                       in case res of
                            Inl e \<Rightarrow> (Inl e, c2)
                          | Inr data_list \<Rightarrow> (Inr (Some data_list), c2)))))"

text \<open>The body of the \<^verbatim>\<open>try\<close> statement of \<^verbatim>\<open>send_with_data_passthrough\<close>.\<close>

definition send_try ::
    "('r, 'w) env \<Rightarrow> ('r, 'w) Connection \<Rightarrow> event
       \<Rightarrow> (error + bytes list option) \<times> ('r, 'w) Connection" where
  "send_try env c event =
     (case (if type_of event = ResponseT then clean_up_response_event c event
            else Inr event) of
        Inl e \<Rightarrow> (Inl e, c)
      | Inr event1 \<Rightarrow> send_cleaned env c event1)"

text \<open>\<^verbatim>\<open>send_with_data_passthrough(event)\<close>.\<close>

definition send_with_data_passthrough ::
    "('r, 'w) env \<Rightarrow> ('r, 'w) Connection \<Rightarrow> event
       \<Rightarrow> (error + bytes list option) \<times> ('r, 'w) Connection" where
  "send_with_data_passthrough env c event =
     (if our_state c = ERROR
      then (Inl (ProtocolError ''Can't send data when our state is ERROR'' None), c)
      else
        (case send_try env c event of
           (Inl e, c1) \<Rightarrow> except_process_error env c1 (our_role c1) e
         | (Inr data_list, c1) \<Rightarrow> (Inr data_list, c1)))"

text \<open>\<^verbatim>\<open>send(event)\<close>: \<^verbatim>\<open>b"".join(data_list)\<close>, or \<^verbatim>\<open>None\<close>.\<close>

definition send :: 
    "('r, 'w) env \<Rightarrow> ('r, 'w) Connection \<Rightarrow> event
       \<Rightarrow> (error + bytes option) \<times> ('r, 'w) Connection" where
  "send env c event =
     (case send_with_data_passthrough env c event of
        (Inl e, c1) \<Rightarrow> (Inl e, c1)
      | (Inr None, c1) \<Rightarrow> (Inr None, c1)
      | (Inr (Some data_list), c1) \<Rightarrow> (Inr (Some (concat data_list)), c1))"

subsection \<open>Events as they are built\<close>








subsection \<open>A sample registry\<close>

text \<open>
  Everything below is proved for any transition table and any registries. To run the
  model on concrete inputs, this is one small instance.

  Modelled from the spec: the body readers and writers of sections 4.3 and 4.4 that the
  spec describes completely. ``Content-length body reader: tracks remaining byte count;
  emits Data slices as they arrive; on reaching zero, emits EndOfMessage with empty
  trailers.'' ``HTTP/1.0 body reader: emits Data for any arrived bytes; has a
  \<^verbatim>\<open>read_eof()\<close> hook [...]; it returns EndOfMessage with empty trailers.''
  ``Content-length data writer: appends data bytes verbatim; on EndOfMessage emits nothing;
  exceeding the declared length is a protocol error. HTTP/1.0 data writer: appends bytes
  verbatim; EndOfMessage emits nothing''. ``Request writer emits METHOD SP target SP
  HTTP/1.1 CRLF then headers then CRLF.'' Of the start-line reader only its first step is
  in the sample: ``locate a double-CRLF terminator; if absent [...] return null''; a
  complete header block is reported as a protocol error instead of being parsed. The
  reader of the states DONE, MUST_CLOSE and CLOSED returns null on an empty buffer and
  fails on data. The chunked reader and writer and the response writer are left out of the
  sample's dictionaries.
\<close>

datatype sample_reader = StartLineReader | ContentLengthReader nat | Http10Reader | ExpectNothing

datatype sample_writer = RequestWriter | ContentLengthWriter nat | Http10Writer

definition CRLF :: bytes where
  "CRLF = [CHR 0x0D, CHR 0x0A]"

fun has_terminator :: "bytes \<Rightarrow> bool" where
  "has_terminator (a # b # c # d # rest) =
     (a # b # c # [d] = CRLF @ CRLF \<or> has_terminator (b # c # d # rest))"
| "has_terminator _ = False"

fun sample_call_reader ::
    "sample_reader \<Rightarrow> bytes \<Rightarrow> (error + event option) \<times> sample_reader \<times> bytes" where
  "sample_call_reader StartLineReader buf =
     (if has_terminator buf
      then (Inl (ProtocolError ''header block not parsed in the sample'' (Some 400)),
            StartLineReader, buf)
      else (Inr None, StartLineReader, buf))"
| "sample_call_reader (ContentLengthReader n) buf =
     (if n = 0 then (Inr (Some (EndOfMessage [])), ContentLengthReader n, buf)
      else if buf = [] then (Inr None, ContentLengthReader n, buf)
      else (Inr (Some (Data (take n buf))), ContentLengthReader (n - length (take n buf)),
            drop n buf))"
| "sample_call_reader Http10Reader buf =
     (if buf = [] then (Inr None, Http10Reader, buf)
      else (Inr (Some (Data buf)), Http10Reader, []))"
| "sample_call_reader ExpectNothing buf =
     (if buf = [] then (Inr None, ExpectNothing, buf)
      else (Inl (ProtocolError ''Got data when expecting EOF'' None), ExpectNothing, buf))"

fun sample_read_eof :: "sample_reader \<Rightarrow> ((error + event option) \<times> sample_reader) option" where
  "sample_read_eof Http10Reader = Some (Inr (Some (EndOfMessage [])), Http10Reader)"
| "sample_read_eof _ = None"

definition sample_READERS :: "role \<times> state \<Rightarrow> sample_reader option" where
  "sample_READERS key =
     (if key \<in> {(CLIENT, IDLE), (SERVER, IDLE), (SERVER, SEND_RESPONSE)} then Some StartLineReader
      else if snd key \<in> {DONE, MUST_CLOSE, CLOSED} then Some ExpectNothing
      else None)"

fun sample_READERS_SEND_BODY :: "framing \<Rightarrow> sample_reader option" where
  "sample_READERS_SEND_BODY (ContentLength n) = Some (ContentLengthReader (nat n))"
| "sample_READERS_SEND_BODY Http10 = Some Http10Reader"
| "sample_READERS_SEND_BODY Chunked = None"

definition not_written :: "sample_writer \<Rightarrow> (error + bytes list) \<times> sample_writer" where
  "not_written w = (Inl (ProtocolError ''event not written in the sample'' None), w)"

fun sample_call_writer ::
    "sample_writer \<Rightarrow> event \<Rightarrow> (error + bytes list) \<times> sample_writer" where
  "sample_call_writer RequestWriter event =
     (case event of
        Request m t hs v \<Rightarrow>
          (Inr ([m @ '' '' @ t @ '' HTTP/1.1'' @ CRLF]
                @ map (\<lambda>h. fst h @ '': '' @ snd h @ CRLF) hs @ [CRLF]), RequestWriter)
      | _ \<Rightarrow> not_written RequestWriter)"
| "sample_call_writer (ContentLengthWriter n) event =
     (case event of
        Data d \<Rightarrow>
          if length d > n
          then (Inl (ProtocolError ''Too much data for declared Content-Length'' None),
                ContentLengthWriter n)
          else (Inr [d], ContentLengthWriter (n - length d))
      | EndOfMessage hs \<Rightarrow> (Inr [], ContentLengthWriter n)
      | _ \<Rightarrow> not_written (ContentLengthWriter n))"
| "sample_call_writer Http10Writer event =
     (case event of
        Data d \<Rightarrow> (Inr [d], Http10Writer)
      | EndOfMessage hs \<Rightarrow> (Inr [], Http10Writer)
      | _ \<Rightarrow> not_written Http10Writer)"

definition sample_WRITERS :: "role \<times> state \<Rightarrow> sample_writer option" where
  "sample_WRITERS key = (if key = (CLIENT, IDLE) then Some RequestWriter else None)"

fun sample_WRITERS_SEND_BODY :: "framing \<Rightarrow> sample_writer option" where
  "sample_WRITERS_SEND_BODY (ContentLength n) = Some (ContentLengthWriter (nat n))"
| "sample_WRITERS_SEND_BODY Http10 = Some Http10Writer"
| "sample_WRITERS_SEND_BODY Chunked = None"

text \<open>
  Modelled from the spec: the transitions of section 4.5 that do not involve a protocol
  switch. Client: ``IDLE \<open>\<rightarrow>\<close> SEND_BODY on sending a Request'', ``SEND_BODY \<open>\<rightarrow>\<close> DONE on
  EndOfMessage'', ``DONE \<open>\<rightarrow>\<close> MUST_CLOSE if \<^verbatim>\<open>keep_alive\<close> is false'', ``MUST_CLOSE \<open>\<rightarrow>\<close>
  CLOSED on ConnectionClosed''. Server: ``IDLE \<open>\<rightarrow>\<close> SEND_RESPONSE when [...] the server
  observes the client's Request'', ``informational responses allowed during
  SEND_RESPONSE'', ``SEND_RESPONSE \<open>\<rightarrow>\<close> SEND_BODY on sending a non-informational
  Response'', ``SEND_BODY \<open>\<rightarrow>\<close> DONE on EndOfMessage'', ``DONE / MUST_CLOSE / CLOSED as for
  client''. A Response drains the pending proposals. Data keeps a role in SEND_BODY, and
  by the comment in \<^verbatim>\<open>_next_receive_event\<close> a role in DONE can still process
  ConnectionClosed. The sample has no transition for a server switch event.
\<close>

definition sample_event_transition :: "role \<Rightarrow> state \<Rightarrow> event_type \<Rightarrow> state option" where
  "sample_event_transition role s t =
     (if role = CLIENT \<and> s = IDLE \<and> t = RequestT then Some SEND_BODY
      else if role = SERVER \<and> s = SEND_RESPONSE \<and> t = InformationalResponseT
        then Some SEND_RESPONSE
      else if role = SERVER \<and> s = SEND_RESPONSE \<and> t = ResponseT then Some SEND_BODY
      else if s = SEND_BODY \<and> t = DataT then Some SEND_BODY
      else if s = SEND_BODY \<and> t = EndOfMessageT then Some DONE
      else if (s = DONE \<or> s = MUST_CLOSE) \<and> t = ConnectionClosedT then Some CLOSED
      else None)"

definition sample_TRANSITIONS :: transitions where
  "sample_TRANSITIONS role event_type server_switch_event cs =
     (if server_switch_event \<noteq> None then None
      else
        (case sample_event_transition role (states cs role) event_type of
           None \<Rightarrow> None
         | Some s \<Rightarrow>
             (let sts = (states cs)(role := s);
                  sts1 = (if event_type = RequestT \<and> sts SERVER = IDLE
                          then sts(SERVER := SEND_RESPONSE) else sts);
                  sts2 = (\<lambda>r. if sts1 r = DONE \<and> \<not> keep_alive cs then MUST_CLOSE else sts1 r)
              in Some (sts2, if event_type = ResponseT then {}
                             else pending_switch_proposals cs))))"

definition sample_env :: "(sample_reader, sample_writer) env" where
  "sample_env =
     \<lparr>TRANSITIONS = sample_TRANSITIONS,
      READERS = sample_READERS,
      READERS_SEND_BODY = sample_READERS_SEND_BODY,
      call_reader = sample_call_reader,
      read_eof = sample_read_eof,
      WRITERS = sample_WRITERS,
      WRITERS_SEND_BODY = sample_WRITERS_SEND_BODY,
      call_writer = sample_call_writer\<rparr>"

text \<open>
  A connection in a given pair of states, with the readers and writers the sample's
  dictionaries give for them; \<open>sample_connection role IDLE IDLE\<close> is a new connection.
\<close>

definition sample_connection ::
    "role \<Rightarrow> state \<Rightarrow> state \<Rightarrow> (sample_reader, sample_writer) Connection" where
  "sample_connection role client_state server_state =
     \<lparr>u_max_buffer_size = 16 * 1024,
      our_role = role,
      their_role = (if role = CLIENT then SERVER else CLIENT),
      u_cstate = \<lparr>keep_alive = True, pending_switch_proposals = {},
                  states = (\<lambda>r. if r = CLIENT then client_state else server_state)\<rparr>,
      u_writer = sample_WRITERS (role, if role = CLIENT then client_state else server_state),
      u_reader = sample_READERS (if role = CLIENT then (SERVER, server_state)
                                 else (CLIENT, client_state)),
      u_receive_buffer = [],
      u_receive_buffer_closed = False,
      their_http_version = None,
      u_request_method = None,
      client_is_waiting_for_100_continue = False\<rparr>"

section \<open>Properties\<close>

subsection \<open>Unfolding rules and frame lemmas\<close>

lemmas bytes_defs = bytes_lower_def lower_byte_def bytes_strip_def is_space_def
lemmas header_defs = get_comma_header_def set_comma_header_def name_matches_def comma_items_def
lemmas int_defs = py_int_def is_digit_def digit_val_def
lemmas sample_defs =
  sample_env_def sample_connection_def sample_TRANSITIONS_def sample_event_transition_def
  sample_READERS_def sample_WRITERS_def
lemmas connection_defs =
  our_state_def their_state_def u_process_event_def u_respond_to_state_changes_def
  u_get_io_object_def u_keep_alive_def u_process_error_def except_process_error_def
  cs_process_event_def cs_process_error_def cs_process_keep_alive_disabled_def
  cs_process_client_switch_proposals_def
lemmas send_defs =
  send_def send_with_data_passthrough_def send_try_def send_cleaned_def
  clean_up_response_event_def u_clean_up_response_headers_for_sending_def list_copy_def
  set_comma_header_in_place_def response_event_def
lemmas receive_defs =
  receive_data_def receive_data_try_def receive_data_update_buffer_def receive_data_finish_def
  u_next_receive_event_def

lemma respond_frame:
  "u_cstate (snd (u_respond_to_state_changes env c old ev)) = u_cstate c"
  "our_role (snd (u_respond_to_state_changes env c old ev)) = our_role c"
  "their_role (snd (u_respond_to_state_changes env c old ev)) = their_role c"
  "u_receive_buffer (snd (u_respond_to_state_changes env c old ev)) = u_receive_buffer c"
  "u_receive_buffer_closed (snd (u_respond_to_state_changes env c old ev)) = u_receive_buffer_closed c"
  "their_http_version (snd (u_respond_to_state_changes env c old ev)) = their_http_version c"
  "u_request_method (snd (u_respond_to_state_changes env c old ev)) = u_request_method c"
  "client_is_waiting_for_100_continue (snd (u_respond_to_state_changes env c old ev)) = client_is_waiting_for_100_continue c"
  "u_max_buffer_size (snd (u_respond_to_state_changes env c old ev)) = u_max_buffer_size c"
  by (auto simp: u_respond_to_state_changes_def split: sum.splits if_splits)

lemma respond_ok:
  assumes "our_state c \<noteq> old (our_role c) \<longrightarrow> our_state c \<noteq> SEND_BODY"
      and "their_state c \<noteq> old (their_role c) \<longrightarrow> their_state c \<noteq> SEND_BODY"
  shows "fst (u_respond_to_state_changes env c old ev) = Inr ()"
  using assms
  by (simp add: u_respond_to_state_changes_def u_get_io_object_def our_state_def their_state_def)

lemma process_error_ok: "fst (u_process_error env c role) = Inr ()"
  unfolding u_process_error_def Let_def
  by (rule respond_ok) (auto simp: our_state_def their_state_def cs_process_error_def)

lemma process_error_frame:
  "u_cstate (snd (u_process_error env c role)) = cs_process_error role (u_cstate c)"
  "our_role (snd (u_process_error env c role)) = our_role c"
  "their_role (snd (u_process_error env c role)) = their_role c"
  "u_receive_buffer (snd (u_process_error env c role)) = u_receive_buffer c"
  "u_receive_buffer_closed (snd (u_process_error env c role)) = u_receive_buffer_closed c"
  "their_http_version (snd (u_process_error env c role)) = their_http_version c"
  "u_request_method (snd (u_process_error env c role)) = u_request_method c"
  "u_max_buffer_size (snd (u_process_error env c role)) = u_max_buffer_size c"
  by (simp_all add: u_process_error_def Let_def respond_frame)

lemma except_process_error_eq:
  "except_process_error env c role e = (Inl e, snd (u_process_error env c role))"
  using process_error_ok [of env c role]
  by (cases "u_process_error env c role") (simp add: except_process_error_def)

lemma except_state:
  "states (u_cstate (snd (except_process_error env c role e))) role = ERROR"
  "r \<noteq> role \<Longrightarrow> states (u_cstate (snd (except_process_error env c role e))) r = states (u_cstate c) r"
  "our_role (snd (except_process_error env c role e)) = our_role c"
  "their_role (snd (except_process_error env c role e)) = their_role c"
  by (simp_all add: except_process_error_eq process_error_frame cs_process_error_def)

lemma update_buffer_frame:
  "u_cstate (snd (receive_data_update_buffer c data)) = u_cstate c"
  "our_role (snd (receive_data_update_buffer c data)) = our_role c"
  "their_role (snd (receive_data_update_buffer c data)) = their_role c"
  "u_reader (snd (receive_data_update_buffer c data)) = u_reader c"
  "u_writer (snd (receive_data_update_buffer c data)) = u_writer c"
  "u_max_buffer_size (snd (receive_data_update_buffer c data)) = u_max_buffer_size c"
  by (simp_all add: receive_data_update_buffer_def split: option.split)

lemma update_buffer_ok:
  assumes "\<not> (u_receive_buffer_closed c \<and> data \<noteq> None \<and> data \<noteq> Some [])"
  shows "fst (receive_data_update_buffer c data) = Inr ()"
    and "u_receive_buffer (snd (receive_data_update_buffer c data))
           = u_receive_buffer c @ (case data of None \<Rightarrow> [] | Some d \<Rightarrow> d)"
    and "u_receive_buffer_closed (snd (receive_data_update_buffer c data))
           = (u_receive_buffer_closed c \<or> data = Some [])"
  using assms by (auto simp: receive_data_update_buffer_def split: option.split)

lemma update_buffer_runtime_error:
  assumes "u_receive_buffer_closed c" and "d \<noteq> []"
  shows "receive_data_update_buffer c (Some d)
           = (Inl (RuntimeError ''received close, then received more data?''), c)"
  using assms by (simp add: receive_data_update_buffer_def)

lemma receive_data_raises:
  assumes "their_state c \<noteq> ERROR" and "receive_data_try env c data = Some (Inl e, c1)"
  shows "receive_data env c data = Some (Inl e, snd (u_process_error env c1 (their_role c1)))"
  using assms by (simp add: receive_data_def except_process_error_eq)

lemma receive_data_returns:
  assumes "their_state c \<noteq> ERROR" and "receive_data_try env c data = Some (Inr events, c1)"
  shows "receive_data env c data = Some (Inr events, c1)"
  using assms by (simp add: receive_data_def)

lemma receive_data_try_after_loop:
  assumes "receive_data_update_buffer c data = (Inr (), c0)"
      and "receive_data_loop env c0 [] = Some (Inr events, c1)"
  shows "receive_data_try env c data = Some (receive_data_finish c1 events)"
  using assms by (simp add: receive_data_try_def)

lemma receive_data_error_state:
  assumes "receive_data env c data = Some (Inl e, c')"
  shows "their_state c' = ERROR"
proof (cases "their_state c = ERROR")
  case True
  with assms show ?thesis by (simp add: receive_data_def)
next
  case False
  with assms show ?thesis
    by (auto simp: receive_data_def except_process_error_eq their_state_def process_error_frame
          cs_process_error_def split: option.splits sum.splits prod.splits)
qed

lemma send_error_our_state:
  assumes "send_with_data_passthrough env c event = (Inl e, c')"
  shows "our_state c' = ERROR"
proof (cases "our_state c = ERROR")
  case True
  with assms show ?thesis by (simp add: send_with_data_passthrough_def)
next
  case False
  with assms show ?thesis
    by (auto simp: send_with_data_passthrough_def except_process_error_eq our_state_def
          process_error_frame cs_process_error_def split: sum.splits prod.splits)
qed

lemma send_error_eq:
  "send env c event = (Inl e, c') \<longleftrightarrow> send_with_data_passthrough env c event = (Inl e, c')"
  by (auto simp: send_def split: sum.splits prod.splits option.splits)

lemma update_buffer_pair:
  "receive_data_update_buffer c data
     = (fst (receive_data_update_buffer c data), snd (receive_data_update_buffer c data))"
  by simp

lemma next_event_paused:
  assumes "their_state c = MIGHT_SWITCH_PROTOCOL \<or> their_state c = SWITCHED_PROTOCOL
           \<or> (their_state c = DONE \<and> u_receive_buffer c \<noteq> [])"
  shows "u_next_receive_event env c = (Inr (Some (Paused (their_state c))), c)"
  using assms by (auto simp: u_next_receive_event_def Let_def)

lemma loop_paused:
  assumes "u_next_receive_event env c = (Inr (Some (Paused st)), c1)"
  shows "receive_data_loop env c events = Some (Inr (events @ [Paused st]), c1)"
  using assms by (subst receive_data_loop.simps) simp

lemma finish_paused:
  "receive_data_finish c (events @ [Paused st]) = (Inr (events @ [Paused st]), c)"
  by (simp add: receive_data_finish_def)

lemma option_case_SomeInl:
  assumes "(case x of Some (Inl e, c') \<Rightarrow> P e c' | _ \<Rightarrow> False)"
  shows "\<exists>e c'. x = Some (Inl e, c') \<and> P e c'"
proof (cases x)
  case None
  with assms show ?thesis by simp
next
  case (Some p)
  obtain r c where p: "p = (r, c)" by (cases p)
  show ?thesis using assms Some p by (cases r) auto
qed

lemma option_case_SomeInr:
  assumes "(case x of Some (Inr v, c') \<Rightarrow> P v c' | _ \<Rightarrow> False)"
  shows "\<exists>v c'. x = Some (Inr v, c') \<and> P v c'"
proof (cases x)
  case None
  with assms show ?thesis by simp
next
  case (Some p)
  obtain r c where p: "p = (r, c)" by (cases p)
  show ?thesis using assms Some p by (cases r) auto
qed

lemma prepare_to_reuse_fails:
  assumes "\<not> (states (u_cstate c) CLIENT = DONE \<and> states (u_cstate c) SERVER = DONE
              \<and> keep_alive (u_cstate c))"
  shows "prepare_to_reuse env c = (Inl (ProtocolError ''not in a reusable state'' None), c)"
  using assms by (auto simp: prepare_to_reuse_def cs_prepare_to_reuse_def)

lemma prepare_to_reuse_run:
  assumes "states (u_cstate c) CLIENT = DONE" "states (u_cstate c) SERVER = DONE"
      and "keep_alive (u_cstate c)" "\<not> client_is_waiting_for_100_continue c"
  shows "prepare_to_reuse env c
           = u_respond_to_state_changes env
               (c\<lparr>u_cstate := (u_cstate c)\<lparr>states := (\<lambda>_. IDLE)\<rparr>, u_request_method := None\<rparr>)
               (states (u_cstate c)) None"
  using assms by (simp add: prepare_to_reuse_def cs_prepare_to_reuse_def)

lemma prepare_to_reuse_success:
  assumes "prepare_to_reuse env c = (Inr (), c')"
  shows "states (u_cstate c) CLIENT = DONE \<and> states (u_cstate c) SERVER = DONE
         \<and> keep_alive (u_cstate c) \<and> \<not> client_is_waiting_for_100_continue c"
  using assms
  by (auto simp: prepare_to_reuse_def cs_prepare_to_reuse_def Let_def split: if_splits)

lemma cs_process_event_keep_alive:
  "cs_process_event tr role et sse cs = Inr cs' \<Longrightarrow> keep_alive cs' = keep_alive cs"
  by (auto simp: cs_process_event_def split: option.splits)

lemma u_keep_alive_request:
  "u_keep_alive (Request m t hs v)
     = Inr (''close'' \<notin> set (get_comma_header hs ''Connection'') \<and> \<not> v < ''1.1'')"
  by (simp add: u_keep_alive_def Let_def)

lemma u_keep_alive_response:
  "u_keep_alive (Response sc hs v)
     = Inr (''close'' \<notin> set (get_comma_header hs ''Connection'') \<and> \<not> v < ''1.1'')"
  by (simp add: u_keep_alive_def Let_def)

lemma process_event_keep_alive_cases:
  "keep_alive (u_cstate (snd (u_process_event env c role event)))
     = (keep_alive (u_cstate c)
        \<and> \<not> (type_of event \<in> {RequestT, ResponseT} \<and> u_keep_alive event = Inr False
              \<and> (\<exists>cs. cs_process_event (TRANSITIONS env) role (type_of event)
                          (if role = SERVER
                           then u_server_switch_event
                                  (if role = CLIENT \<and> type_of event = RequestT
                                   then c\<lparr>u_cstate := cs_process_client_switch_proposals
                                                        (u_client_switch_events event) (u_cstate c)\<rparr>
                                   else c) event
                           else None)
                          (u_cstate (if role = CLIENT \<and> type_of event = RequestT
                                     then c\<lparr>u_cstate := cs_process_client_switch_proposals
                                                          (u_client_switch_events event) (u_cstate c)\<rparr>
                                     else c)) = Inr cs)))"
  apply (cases event)
  apply (auto simp: u_process_event_def Let_def respond_frame u_keep_alive_request
         u_keep_alive_response cs_process_client_switch_proposals_def
         cs_process_keep_alive_disabled_def
         dest: cs_process_event_keep_alive split: sum.splits)
  done

lemma process_event_accepted:
  assumes "fst (u_process_event env c role event) = Inr ()"
  shows "\<exists>cs. cs_process_event (TRANSITIONS env) role (type_of event)
                          (if role = SERVER
                           then u_server_switch_event
                                  (if role = CLIENT \<and> type_of event = RequestT
                                   then c\<lparr>u_cstate := cs_process_client_switch_proposals
                                                        (u_client_switch_events event) (u_cstate c)\<rparr>
                                   else c) event
                           else None)
                          (u_cstate (if role = CLIENT \<and> type_of event = RequestT
                                     then c\<lparr>u_cstate := cs_process_client_switch_proposals
                                                          (u_client_switch_events event) (u_cstate c)\<rparr>
                                     else c)) = Inr cs"
  using assms
  by (auto simp: u_process_event_def Let_def split: sum.splits)

subsection \<open>Comma lists and the cleaned header list\<close>





























subsection \<open>C5: an exception leaves the role in ERROR\<close>

text \<open>
  C5. Whenever \<^verbatim>\<open>receive_data\<close> raises, their state is ERROR when the exception leaves
  the call, and whenever \<^verbatim>\<open>send_with_data_passthrough\<close> or \<^verbatim>\<open>send\<close> raises, our state
  is ERROR. \<^verbatim>\<open>receive_data\<close> called while their state is already ERROR, and \<^verbatim>\<open>send\<close>
  called while our state is already ERROR, fail at once with a protocol error and change
  nothing. The handler's \<^verbatim>\<open>_process_error(role)\<close> never fails itself, puts \<open>role\<close> in
  ERROR and leaves the state of the other role as it was.
\<close>

theorem errors_put_the_role_in_ERROR:
  "(receive_data env c data = Some (Inl e, c') \<longrightarrow> their_state c' = ERROR)
   \<and> (send_with_data_passthrough env c event = (Inl e, c') \<longrightarrow> our_state c' = ERROR)
   \<and> (send env c event = (Inl e, c') \<longrightarrow> our_state c' = ERROR)
   \<and> (their_state c = ERROR \<longrightarrow>
        receive_data env c data
          = Some (Inl (ProtocolError ''Can't receive data when peer state is ERROR'' None), c))
   \<and> (our_state c = ERROR \<longrightarrow>
        send env c event = (Inl (ProtocolError ''Can't send data when our state is ERROR'' None), c))
   \<and> fst (u_process_error env c role) = Inr ()
   \<and> states (u_cstate (snd (u_process_error env c role))) role = ERROR
   \<and> (other \<noteq> role \<longrightarrow>
        states (u_cstate (snd (u_process_error env c role))) other = states (u_cstate c) other)"
proof -
  have 1: "receive_data env c data = Some (Inl e, c') \<longrightarrow> their_state c' = ERROR"
    using receive_data_error_state by blast
  have 2: "send_with_data_passthrough env c event = (Inl e, c') \<longrightarrow> our_state c' = ERROR"
    using send_error_our_state by blast
  have 3: "send env c event = (Inl e, c') \<longrightarrow> our_state c' = ERROR"
    using send_error_our_state send_error_eq by blast
  have 4: "their_state c = ERROR \<longrightarrow>
        receive_data env c data
          = Some (Inl (ProtocolError ''Can't receive data when peer state is ERROR'' None), c)"
    by (simp add: receive_data_def)
  have 5: "our_state c = ERROR \<longrightarrow>
        send env c event = (Inl (ProtocolError ''Can't send data when our state is ERROR'' None), c)"
    by (simp add: send_def send_with_data_passthrough_def)
  have 6: "states (u_cstate (snd (u_process_error env c role))) role = ERROR"
    by (simp add: process_error_frame cs_process_error_def)
  have 7: "other \<noteq> role \<longrightarrow>
        states (u_cstate (snd (u_process_error env c role))) other = states (u_cstate c) other"
    by (simp add: process_error_frame cs_process_error_def)
  from 1 2 3 4 5 6 7 process_error_ok [of env c role] show ?thesis by blast
qed

text \<open>
  The theorem on the sample registry: a server whose buffer limit is 4 receives five bytes
  of an unfinished request line; a client sends Data while IDLE; a server whose peer is in
  ERROR receives more bytes; and an error of the client leaves the server IDLE.
\<close>

theorem errors_put_the_role_in_ERROR_witness:
  "(\<exists>e c'. receive_data sample_env ((sample_connection SERVER IDLE IDLE)\<lparr>u_max_buffer_size := 4\<rparr>)
              (Some ''hello'') = Some (Inl e, c')
           \<and> their_state c' = ERROR)
   \<and> (\<exists>e c'. send sample_env (sample_connection CLIENT IDLE IDLE) (Data ''x'') = (Inl e, c')
           \<and> our_state c' = ERROR)
   \<and> their_state (sample_connection SERVER ERROR IDLE) = ERROR
   \<and> receive_data sample_env (sample_connection SERVER ERROR IDLE) (Some ''x'')
       = Some (Inl (ProtocolError ''Can't receive data when peer state is ERROR'' None),
               sample_connection SERVER ERROR IDLE)
   \<and> states (u_cstate (snd (u_process_error sample_env (sample_connection SERVER IDLE IDLE) CLIENT)))
        SERVER = IDLE"
proof -
  let ?cr = "(sample_connection SERVER IDLE IDLE)\<lparr>u_max_buffer_size := 4\<rparr>"
  let ?cs = "sample_connection CLIENT IDLE IDLE"
  let ?ce = "sample_connection SERVER ERROR IDLE"
  let ?ci = "sample_connection SERVER IDLE IDLE"
  have "(case receive_data sample_env ?cr (Some ''hello'') of
           Some (Inl e, c') \<Rightarrow> True | _ \<Rightarrow> False)"
    by code_simp
  then obtain e1 c1 where r: "receive_data sample_env ?cr (Some ''hello'') = Some (Inl e1, c1)"
    using option_case_SomeInl by fastforce
  have "(case Some (send sample_env ?cs (Data ''x'')) of
           Some (Inl e, c') \<Rightarrow> True | _ \<Rightarrow> False)"
    by code_simp
  then obtain e2 c2 where s: "send sample_env ?cs (Data ''x'') = (Inl e2, c2)"
    using option_case_SomeInl by fastforce
  have te: "their_state ?ce = ERROR" by code_simp
  have st: "states (u_cstate ?ci) SERVER = IDLE" by code_simp
  have 1: "their_state c1 = ERROR"
    using errors_put_the_role_in_ERROR [of sample_env ?cr "Some ''hello''" e1 c1, THEN conjunct1] r
    by (rule mp)
  have 2: "our_state c2 = ERROR"
    using errors_put_the_role_in_ERROR [of sample_env ?cs _ e2 c2 "Data ''x''",
            THEN conjunct2, THEN conjunct2, THEN conjunct1] s
    by (rule mp)
  have 3: "receive_data sample_env ?ce (Some ''x'')
       = Some (Inl (ProtocolError ''Can't receive data when peer state is ERROR'' None), ?ce)"
    using errors_put_the_role_in_ERROR [of sample_env ?ce "Some ''x''",
            THEN conjunct2, THEN conjunct2, THEN conjunct2, THEN conjunct1] te
    by (rule mp)
  have ne: "SERVER \<noteq> CLIENT" by simp
  have 4: "states (u_cstate (snd (u_process_error sample_env ?ci CLIENT))) SERVER
             = states (u_cstate ?ci) SERVER"
    using errors_put_the_role_in_ERROR [of sample_env ?ci _ _ _ _ CLIENT SERVER,
            THEN conjunct2, THEN conjunct2, THEN conjunct2, THEN conjunct2, THEN conjunct2,
            THEN conjunct2, THEN conjunct2] ne
    by (rule mp)
  from r 1 have A: "\<exists>e c'. receive_data sample_env ?cr (Some ''hello'') = Some (Inl e, c')
           \<and> their_state c' = ERROR" by blast
  from s 2 have B: "\<exists>e c'. send sample_env ?cs (Data ''x'') = (Inl e, c') \<and> our_state c' = ERROR"
    by blast
  from 4 st have C: "states (u_cstate (snd (u_process_error sample_env ?ci CLIENT))) SERVER = IDLE"
    by simp
  from A B te 3 C show ?thesis by (intro conjI)
qed

subsection \<open>C7: Paused while the peer may switch protocols, has switched, or is DONE\<close>

text \<open>
  C7 (as amended). Let their state be MIGHT_SWITCH_PROTOCOL or SWITCHED_PROTOCOL, or DONE
  with a buffer that is non-empty once the new bytes are added. Unless the call brings
  non-empty bytes after end-of-file was recorded, \<^verbatim>\<open>receive_data(data)\<close> returns exactly
  one event, Paused with their state as its reason; the state machine, the reader and the
  writer are as before; and \<^verbatim>\<open>trailing_data\<close> is then the old buffer followed by the new
  bytes, together with the closed flag, which is set when \<open>data\<close> is the empty byte
  string.
\<close>

theorem paused_while_switching_or_done:
  "(their_state c = MIGHT_SWITCH_PROTOCOL \<or> their_state c = SWITCHED_PROTOCOL
      \<or> (their_state c = DONE \<and> u_receive_buffer c @ new_bytes \<noteq> []))
   \<and> new_bytes = (case data of None \<Rightarrow> [] | Some d \<Rightarrow> d)
   \<and> \<not> (u_receive_buffer_closed c \<and> new_bytes \<noteq> [])
   \<longrightarrow> (\<exists>c'. receive_data env c data = Some (Inr [Paused (their_state c)], c')
             \<and> u_cstate c' = u_cstate c \<and> u_reader c' = u_reader c \<and> u_writer c' = u_writer c
             \<and> trailing_data c'
                 = (u_receive_buffer c @ new_bytes, u_receive_buffer_closed c \<or> data = Some []))"
proof (intro impI, elim conjE)
  assume st: "their_state c = MIGHT_SWITCH_PROTOCOL \<or> their_state c = SWITCHED_PROTOCOL
      \<or> (their_state c = DONE \<and> u_receive_buffer c @ new_bytes \<noteq> [])"
  assume nb: "new_bytes = (case data of None \<Rightarrow> [] | Some d \<Rightarrow> d)"
  assume ok: "\<not> (u_receive_buffer_closed c \<and> new_bytes \<noteq> [])"
  define c0 where "c0 = snd (receive_data_update_buffer c data)"
  have pre: "\<not> (u_receive_buffer_closed c \<and> data \<noteq> None \<and> data \<noteq> Some [])"
    using ok nb by (auto split: option.splits)
  have upd: "receive_data_update_buffer c data = (Inr (), c0)"
    using update_buffer_ok(1) [OF pre] update_buffer_pair [of c data] by (simp add: c0_def)
  have buf: "u_receive_buffer c0 = u_receive_buffer c @ new_bytes"
    using update_buffer_ok(2) [OF pre] nb by (simp add: c0_def)
  have cl: "u_receive_buffer_closed c0 = (u_receive_buffer_closed c \<or> data = Some [])"
    using update_buffer_ok(3) [OF pre] by (simp add: c0_def)
  have ts: "their_state c0 = their_state c"
    by (simp add: their_state_def c0_def update_buffer_frame)
  have ne: "their_state c \<noteq> ERROR" using st by auto
  have "u_next_receive_event env c0 = (Inr (Some (Paused (their_state c0))), c0)"
    by (rule next_event_paused) (use st ts buf in auto)
  then have "receive_data_loop env c0 [] = Some (Inr ([] @ [Paused (their_state c)]), c0)"
    unfolding ts by (rule loop_paused)
  then have "receive_data_try env c data = Some (Inr [Paused (their_state c)], c0)"
    using receive_data_try_after_loop [OF upd] finish_paused [of c0 "[]"] by simp
  then have "receive_data env c data = Some (Inr [Paused (their_state c)], c0)"
    using ne by (rule receive_data_returns [rotated])
  moreover have "u_cstate c0 = u_cstate c" "u_reader c0 = u_reader c" "u_writer c0 = u_writer c"
    by (simp_all add: c0_def update_buffer_frame)
  moreover have "trailing_data c0
      = (u_receive_buffer c @ new_bytes, u_receive_buffer_closed c \<or> data = Some [])"
    by (simp add: trailing_data_def buf cl)
  ultimately show "\<exists>c'. receive_data env c data = Some (Inr [Paused (their_state c)], c')
             \<and> u_cstate c' = u_cstate c \<and> u_reader c' = u_reader c \<and> u_writer c' = u_writer c
             \<and> trailing_data c'
                 = (u_receive_buffer c @ new_bytes, u_receive_buffer_closed c \<or> data = Some [])"
    by blast
qed

text \<open>The theorem at a server whose client might switch protocols and sends three bytes.\<close>

theorem paused_while_switching_or_done_witness:
  "their_state (sample_connection SERVER MIGHT_SWITCH_PROTOCOL SEND_RESPONSE) = MIGHT_SWITCH_PROTOCOL
   \<and> \<not> u_receive_buffer_closed (sample_connection SERVER MIGHT_SWITCH_PROTOCOL SEND_RESPONSE)
   \<and> (\<exists>c'. receive_data sample_env (sample_connection SERVER MIGHT_SWITCH_PROTOCOL SEND_RESPONSE)
              (Some ''abc'') = Some (Inr [Paused MIGHT_SWITCH_PROTOCOL], c')
           \<and> trailing_data c' = (''abc'', False))"
proof -
  let ?c = "sample_connection SERVER MIGHT_SWITCH_PROTOCOL SEND_RESPONSE"
  have a: "their_state ?c = MIGHT_SWITCH_PROTOCOL" by code_simp
  have b: "\<not> u_receive_buffer_closed ?c" by code_simp
  have c: "u_receive_buffer ?c = []" by code_simp
  have d: "''abc'' = (case Some ''abc'' of None \<Rightarrow> [] | Some d \<Rightarrow> d)" by simp
  have nb: "\<not> (u_receive_buffer_closed ?c \<and> ''abc'' \<noteq> [])" using b by (rule contrapos_nn) (rule conjunct1)
  have hyp: "(their_state ?c = MIGHT_SWITCH_PROTOCOL \<or> their_state ?c = SWITCHED_PROTOCOL
      \<or> (their_state ?c = DONE \<and> u_receive_buffer ?c @ ''abc'' \<noteq> []))
   \<and> ''abc'' = (case Some ''abc'' of None \<Rightarrow> [] | Some d \<Rightarrow> d)
   \<and> \<not> (u_receive_buffer_closed ?c \<and> ''abc'' \<noteq> [])"
    by (intro conjI disjI1 a d nb)
  from paused_while_switching_or_done [of ?c "''abc''" "Some ''abc''" sample_env, THEN mp, OF hyp]
  obtain c' where X: "receive_data sample_env ?c (Some ''abc'')
                     = Some (Inr [Paused (their_state ?c)], c')
      \<and> u_cstate c' = u_cstate ?c \<and> u_reader c' = u_reader ?c \<and> u_writer c' = u_writer ?c
      \<and> trailing_data c' = (u_receive_buffer ?c @ ''abc'',
                             u_receive_buffer_closed ?c \<or> Some ''abc'' = Some [])" ..
  from X have r: "receive_data sample_env ?c (Some ''abc'') = Some (Inr [Paused MIGHT_SWITCH_PROTOCOL], c')"
    unfolding a by (rule conjunct1)
  note X [THEN conjunct2, THEN conjunct2, THEN conjunct2, THEN conjunct2]
  then have t: "trailing_data c' = (''abc'', False)"
    unfolding c using b by simp
  have E: "\<exists>c'. receive_data sample_env ?c (Some ''abc'')
                  = Some (Inr [Paused MIGHT_SWITCH_PROTOCOL], c')
           \<and> trailing_data c' = (''abc'', False)"
    by (rule exI [where x = c'], rule conjI [OF r t])
  show ?thesis by (rule conjI [OF a conjI [OF b E]])
qed

text \<open>
  The claim as stated covers every call. After the empty byte string has recorded
  end-of-file (which still returns Paused), a call with more bytes raises RuntimeError:
  no Paused is returned, the bytes are not buffered, and the state machine moves their
  state to ERROR.
\<close>

theorem paused_after_eof_counterexample:
  "\<exists>c1 c2.
     their_state (sample_connection SERVER MIGHT_SWITCH_PROTOCOL SEND_RESPONSE)
       = MIGHT_SWITCH_PROTOCOL
     \<and> receive_data sample_env (sample_connection SERVER MIGHT_SWITCH_PROTOCOL SEND_RESPONSE)
         (Some []) = Some (Inr [Paused MIGHT_SWITCH_PROTOCOL], c1)
     \<and> their_state c1 = MIGHT_SWITCH_PROTOCOL
     \<and> receive_data sample_env c1 (Some ''abc'')
         = Some (Inl (RuntimeError ''received close, then received more data?''), c2)
     \<and> their_state c2 = ERROR
     \<and> trailing_data c2 = ([], True)"
proof -
  let ?c = "sample_connection SERVER MIGHT_SWITCH_PROTOCOL SEND_RESPONSE"
  let ?Q = "\<lambda>e c2. e = RuntimeError ''received close, then received more data?''
                     \<and> their_state c2 = ERROR \<and> trailing_data c2 = ([], True)"
  let ?P = "\<lambda>evs c1. evs = [Paused MIGHT_SWITCH_PROTOCOL] \<and> their_state c1 = MIGHT_SWITCH_PROTOCOL
             \<and> (case receive_data sample_env c1 (Some ''abc'') of
                   Some (Inl e, c2) \<Rightarrow> ?Q e c2
                 | _ \<Rightarrow> False)"
  have "(case receive_data sample_env ?c (Some []) of
           Some (Inr evs, c1) \<Rightarrow> ?P evs c1
         | _ \<Rightarrow> False)"
    by code_simp
  then have "\<exists>evs c1. receive_data sample_env ?c (Some []) = Some (Inr evs, c1) \<and> ?P evs c1"
    by (rule option_case_SomeInr)
  then obtain evs c1 where 1: "receive_data sample_env ?c (Some []) = Some (Inr evs, c1)"
    and 2: "evs = [Paused MIGHT_SWITCH_PROTOCOL]" and 3: "their_state c1 = MIGHT_SWITCH_PROTOCOL"
    and 4: "(case receive_data sample_env c1 (Some ''abc'') of
                   Some (Inl e, c2) \<Rightarrow> ?Q e c2
                 | _ \<Rightarrow> False)"
    by blast
  from 4 have "\<exists>e c2. receive_data sample_env c1 (Some ''abc'') = Some (Inl e, c2) \<and> ?Q e c2"
    by (rule option_case_SomeInl)
  then obtain c2 where 5: "receive_data sample_env c1 (Some ''abc'')
         = Some (Inl (RuntimeError ''received close, then received more data?''), c2)"
    and 6: "their_state c2 = ERROR" and 7: "trailing_data c2 = ([], True)"
    by blast
  have 0: "their_state ?c = MIGHT_SWITCH_PROTOCOL" by code_simp
  from 0 1 2 3 5 6 7 show ?thesis by blast
qed

subsection \<open>C10: bytes after end-of-file\<close>

text \<open>
  C10 (as amended). If the receive buffer is marked closed and their state is not already
  ERROR, \<^verbatim>\<open>receive_data\<close> called with non-empty bytes raises RuntimeError, which is not
  the protocol error, and their state is ERROR when the exception leaves the call.
\<close>

theorem data_after_eof_raises_RuntimeError:
  "their_state c \<noteq> ERROR \<and> u_receive_buffer_closed c \<and> d \<noteq> []
   \<longrightarrow> receive_data env c (Some d)
         = Some (Inl (RuntimeError ''received close, then received more data?''),
                 snd (u_process_error env c (their_role c)))
       \<and> their_state (snd (u_process_error env c (their_role c))) = ERROR"
proof (intro impI, elim conjE)
  assume ne: "their_state c \<noteq> ERROR" and cl: "u_receive_buffer_closed c" and d: "d \<noteq> []"
  have "receive_data_try env c (Some d)
          = Some (Inl (RuntimeError ''received close, then received more data?''), c)"
    using update_buffer_runtime_error [OF cl d] by (simp add: receive_data_try_def)
  from receive_data_raises [OF ne this]
  show "receive_data env c (Some d)
         = Some (Inl (RuntimeError ''received close, then received more data?''),
                 snd (u_process_error env c (their_role c)))
       \<and> their_state (snd (u_process_error env c (their_role c))) = ERROR"
    by (simp add: their_state_def process_error_frame cs_process_error_def)
qed

text \<open>
  The theorem after an HTTP/1.0 body: the empty byte string ends the body and closes the
  connection (EndOfMessage, ConnectionClosed; their state CLOSED), and bytes that arrive
  later raise RuntimeError.
\<close>

theorem data_after_eof_raises_RuntimeError_witness:
  "\<exists>events c1.
     receive_data sample_env
       ((sample_connection CLIENT DONE SEND_BODY)\<lparr>u_reader := Some Http10Reader\<rparr>) (Some [])
       = Some (Inr events, c1)
     \<and> events = [EndOfMessage [], ConnectionClosed]
     \<and> their_state c1 = CLOSED
     \<and> u_receive_buffer_closed c1
     \<and> receive_data sample_env c1 (Some ''late'')
         = Some (Inl (RuntimeError ''received close, then received more data?''),
                 snd (u_process_error sample_env c1 (their_role c1)))
     \<and> their_state (snd (u_process_error sample_env c1 (their_role c1))) = ERROR"
proof -
  let ?c = "(sample_connection CLIENT DONE SEND_BODY)\<lparr>u_reader := Some Http10Reader\<rparr>"
  let ?P = "\<lambda>events c1. events = [EndOfMessage [], ConnectionClosed] \<and> their_state c1 = CLOSED
              \<and> u_receive_buffer_closed c1"
  have "(case receive_data sample_env ?c (Some []) of
           Some (Inr events, c1) \<Rightarrow> ?P events c1
         | _ \<Rightarrow> False)"
    by code_simp
  then have "\<exists>events c1. receive_data sample_env ?c (Some []) = Some (Inr events, c1) \<and> ?P events c1"
    by (rule option_case_SomeInr)
  then obtain events c1 where 1: "receive_data sample_env ?c (Some []) = Some (Inr events, c1)"
    and 2: "events = [EndOfMessage [], ConnectionClosed]" and 3: "their_state c1 = CLOSED"
    and 4: "u_receive_buffer_closed c1"
    by blast
  have ne: "their_state c1 \<noteq> ERROR" using 3 by simp
  have d: "''late'' \<noteq> []" by simp
  note T = data_after_eof_raises_RuntimeError [of c1 "''late''" sample_env, THEN mp,
             OF conjI [OF ne conjI [OF 4 d]]]
  show ?thesis
    by (rule exI [where x = events], rule exI [where x = c1])
       (rule conjI [OF 1 conjI [OF 2 conjI [OF 3 conjI [OF 4 T]]]])
qed

text \<open>
  The claim as stated has no condition on their state. A server holds an unfinished
  request line when the empty byte string arrives: that call records end-of-file and
  raises a protocol error, so their state is ERROR. Non-empty bytes after it raise the
  protocol error of the guard at the head of \<^verbatim>\<open>receive_data\<close>, not RuntimeError.
\<close>

theorem data_after_eof_in_ERROR_counterexample:
  "\<exists>c1 c2.
     receive_data sample_env (sample_connection SERVER IDLE IDLE) (Some ''GET /'')
       = Some (Inr [], c1)
     \<and> receive_data sample_env c1 (Some [])
         = Some (Inl (ProtocolError ''peer unexpectedly closed connection'' None), c2)
     \<and> u_receive_buffer_closed c2
     \<and> their_state c2 = ERROR
     \<and> map_option fst (receive_data sample_env c2 (Some ''more''))
         = Some (Inl (ProtocolError ''Can't receive data when peer state is ERROR'' None))"
proof -
  let ?c = "sample_connection SERVER IDLE IDLE"
  let ?Q = "\<lambda>e c2. e = ProtocolError ''peer unexpectedly closed connection'' None
              \<and> u_receive_buffer_closed c2 \<and> their_state c2 = ERROR
              \<and> map_option fst (receive_data sample_env c2 (Some ''more''))
                  = Some (Inl (ProtocolError ''Can't receive data when peer state is ERROR'' None))"
  let ?P = "\<lambda>events c1. events = []
              \<and> (case receive_data sample_env c1 (Some []) of
                    Some (Inl e, c2) \<Rightarrow> ?Q e c2
                  | _ \<Rightarrow> False)"
  have "(case receive_data sample_env ?c (Some ''GET /'') of
           Some (Inr events, c1) \<Rightarrow> ?P events c1
         | _ \<Rightarrow> False)"
    by code_simp
  then have "\<exists>events c1. receive_data sample_env ?c (Some ''GET /'') = Some (Inr events, c1)
               \<and> ?P events c1"
    by (rule option_case_SomeInr)
  then obtain c1 where 1: "receive_data sample_env ?c (Some ''GET /'') = Some (Inr [], c1)"
    and 2: "(case receive_data sample_env c1 (Some []) of
                    Some (Inl e, c2) \<Rightarrow> ?Q e c2
                  | _ \<Rightarrow> False)"
    by blast
  from 2 have "\<exists>e c2. receive_data sample_env c1 (Some []) = Some (Inl e, c2) \<and> ?Q e c2"
    by (rule option_case_SomeInl)
  then obtain c2 where 3: "receive_data sample_env c1 (Some [])
         = Some (Inl (ProtocolError ''peer unexpectedly closed connection'' None), c2)"
    and 4: "u_receive_buffer_closed c2" and 5: "their_state c2 = ERROR"
    and 6: "map_option fst (receive_data sample_env c2 (Some ''more''))
         = Some (Inl (ProtocolError ''Can't receive data when peer state is ERROR'' None))"
    by blast
  show ?thesis
    by (rule exI [where x = c1], rule exI [where x = c2])
       (rule conjI [OF 1 conjI [OF 3 conjI [OF 4 conjI [OF 5 6]]]])
qed

subsection \<open>C4: the limit on buffered bytes\<close>

text \<open>
  C4. After a \<^verbatim>\<open>receive_data\<close> call that returns normally with a final event that is not
  Paused (or with no event), the receive buffer holds at most \<^verbatim>\<open>max_buffer_size\<close> bytes.
  When the parse loop has ended normally, the final event is not Paused and more than
  \<^verbatim>\<open>max_buffer_size\<close> bytes are left, \<^verbatim>\<open>receive_data\<close> raises a protocol error with the
  hint 431. When the final event is Paused, \<^verbatim>\<open>receive_data\<close> returns the events whatever
  the size of the buffer.
\<close>

theorem receive_buffer_limit:
  "(receive_data env c data = Some (Inr events, c')
      \<and> (events = [] \<or> type_of (last events) \<noteq> PausedT)
      \<longrightarrow> int (length (u_receive_buffer c')) \<le> u_max_buffer_size c')
   \<and> (their_state c \<noteq> ERROR
      \<and> receive_data_update_buffer c data = (Inr (), c0)
      \<and> receive_data_loop env c0 [] = Some (Inr events, c1)
      \<longrightarrow> ((events = [] \<or> type_of (last events) \<noteq> PausedT)
              \<and> int (length (u_receive_buffer c1)) > u_max_buffer_size c1
            \<longrightarrow> receive_data env c data
                  = Some (Inl (ProtocolError ''Receive buffer too long'' (Some 431)),
                          snd (u_process_error env c1 (their_role c1))))
          \<and> (events \<noteq> [] \<and> type_of (last events) = PausedT
            \<longrightarrow> receive_data env c data = Some (Inr events, c1)))"
proof (intro conjI impI)
  assume a: "receive_data env c data = Some (Inr events, c')
      \<and> (events = [] \<or> type_of (last events) \<noteq> PausedT)"
  then obtain c1 evs where f: "receive_data_finish c1 evs = (Inr events, c')"
    by (auto simp: receive_data_def receive_data_try_def except_process_error_eq
          split: if_splits option.splits sum.splits prod.splits)
  then have "evs = events \<and> c1 = c'"
    by (auto simp: receive_data_finish_def split: if_splits)
  with f a show "int (length (u_receive_buffer c')) \<le> u_max_buffer_size c'"
    by (auto simp: receive_data_finish_def split: if_splits)
next
  assume h: "their_state c \<noteq> ERROR
      \<and> receive_data_update_buffer c data = (Inr (), c0)
      \<and> receive_data_loop env c0 [] = Some (Inr events, c1)"
  assume b: "(events = [] \<or> type_of (last events) \<noteq> PausedT)
              \<and> int (length (u_receive_buffer c1)) > u_max_buffer_size c1"
  have "receive_data_try env c data
          = Some (Inl (ProtocolError ''Receive buffer too long'' (Some 431)), c1)"
    using h b receive_data_try_after_loop [of c data c0 env events c1]
    by (auto simp: receive_data_finish_def)
  with h show "receive_data env c data
                  = Some (Inl (ProtocolError ''Receive buffer too long'' (Some 431)),
                          snd (u_process_error env c1 (their_role c1)))"
    using receive_data_raises by blast
next
  assume h: "their_state c \<noteq> ERROR
      \<and> receive_data_update_buffer c data = (Inr (), c0)
      \<and> receive_data_loop env c0 [] = Some (Inr events, c1)"
  assume b: "events \<noteq> [] \<and> type_of (last events) = PausedT"
  have "receive_data_try env c data = Some (Inr events, c1)"
    using h b receive_data_try_after_loop [of c data c0 env events c1]
    by (auto simp: receive_data_finish_def)
  with h show "receive_data env c data = Some (Inr events, c1)"
    using receive_data_returns by blast
qed

text \<open>
  The theorem on the sample registry: five bytes of a request line under the default
  limit; the same five bytes under a limit of 4; and five bytes under a limit of 4 for a
  peer that is DONE, where the call pauses.
\<close>

theorem receive_buffer_limit_witness:
  "(\<exists>c'. receive_data sample_env (sample_connection SERVER IDLE IDLE) (Some ''GET /'')
             = Some (Inr [], c')
          \<and> int (length (u_receive_buffer c')) \<le> u_max_buffer_size c')
   \<and> (\<exists>c'. receive_data sample_env ((sample_connection SERVER IDLE IDLE)\<lparr>u_max_buffer_size := 4\<rparr>)
               (Some ''hello'')
             = Some (Inl (ProtocolError ''Receive buffer too long'' (Some 431)), c'))
   \<and> (\<exists>events c1. receive_data sample_env
                      ((sample_connection CLIENT DONE DONE)\<lparr>u_max_buffer_size := 4\<rparr>)
                      (Some ''hello'')
                    = Some (Inr events, c1)
                 \<and> events = [Paused DONE]
                 \<and> int (length (u_receive_buffer c1)) > u_max_buffer_size c1)"
proof -
  let ?A = "sample_connection SERVER IDLE IDLE"
  let ?B = "(sample_connection SERVER IDLE IDLE)\<lparr>u_max_buffer_size := 4\<rparr>"
  let ?C = "(sample_connection CLIENT DONE DONE)\<lparr>u_max_buffer_size := 4\<rparr>"
  \<comment> \<open>a normal return without Paused\<close>
  have "(case receive_data sample_env ?A (Some ''GET /'') of
           Some (Inr events, c') \<Rightarrow> events = [] | _ \<Rightarrow> False)"
    by code_simp
  then have "\<exists>events c'. receive_data sample_env ?A (Some ''GET /'') = Some (Inr events, c')
               \<and> events = []"
    by (rule option_case_SomeInr)
  then obtain ca where a1: "receive_data sample_env ?A (Some ''GET /'') = Some (Inr [], ca)"
    by blast
  have a2: "[] = [] \<or> type_of (last []) \<noteq> PausedT" by simp
  note a3 = receive_buffer_limit [of sample_env ?A "Some ''GET /''" "[]" ca, THEN conjunct1,
              THEN mp, OF conjI [OF a1 a2]]
  have A: "\<exists>c'. receive_data sample_env ?A (Some ''GET /'') = Some (Inr [], c')
          \<and> int (length (u_receive_buffer c')) \<le> u_max_buffer_size c'"
    by (rule exI [where x = ca], rule conjI [OF a1 a3])
  \<comment> \<open>too many bytes left after the loop\<close>
  define b0 where "b0 = snd (receive_data_update_buffer ?B (Some ''hello''))"
  have "fst (receive_data_update_buffer ?B (Some ''hello'')) = Inr ()" by code_simp
  then have b1: "receive_data_update_buffer ?B (Some ''hello'') = (Inr (), b0)"
    using update_buffer_pair [of ?B "Some ''hello''"] by (simp add: b0_def)
  have "(case receive_data_loop sample_env
                (snd (receive_data_update_buffer ?B (Some ''hello''))) [] of
           Some (Inr events, c1) \<Rightarrow>
             events = [] \<and> int (length (u_receive_buffer c1)) > u_max_buffer_size c1
         | _ \<Rightarrow> False)"
    by code_simp
  then have "\<exists>events c1. receive_data_loop sample_env b0 [] = Some (Inr events, c1)
               \<and> (events = [] \<and> int (length (u_receive_buffer c1)) > u_max_buffer_size c1)"
    unfolding b0_def by (rule option_case_SomeInr)
  then obtain cb where b2: "receive_data_loop sample_env b0 [] = Some (Inr [], cb)"
    and b3: "int (length (u_receive_buffer cb)) > u_max_buffer_size cb"
    by blast
  have b4: "their_state ?B \<noteq> ERROR" by code_simp
  have b5: "([] = [] \<or> type_of (last []) \<noteq> PausedT)
              \<and> int (length (u_receive_buffer cb)) > u_max_buffer_size cb"
    using b3 by simp
  note b6 = receive_buffer_limit [of sample_env ?B "Some ''hello''" "[]" _ b0 cb, THEN conjunct2,
              THEN mp, OF conjI [OF b4 conjI [OF b1 b2]], THEN conjunct1, THEN mp, OF b5]
  have B: "\<exists>c'. receive_data sample_env ?B (Some ''hello'')
             = Some (Inl (ProtocolError ''Receive buffer too long'' (Some 431)), c')"
    by (rule exI [where x = "snd (u_process_error sample_env cb (their_role cb))"]) (rule b6)
  \<comment> \<open>Paused: no limit\<close>
  define d0 where "d0 = snd (receive_data_update_buffer ?C (Some ''hello''))"
  have "fst (receive_data_update_buffer ?C (Some ''hello'')) = Inr ()" by code_simp
  then have c1: "receive_data_update_buffer ?C (Some ''hello'') = (Inr (), d0)"
    using update_buffer_pair [of ?C "Some ''hello''"] by (simp add: d0_def)
  have "(case receive_data_loop sample_env
                (snd (receive_data_update_buffer ?C (Some ''hello''))) [] of
           Some (Inr events, c1) \<Rightarrow>
             events = [Paused DONE] \<and> int (length (u_receive_buffer c1)) > u_max_buffer_size c1
         | _ \<Rightarrow> False)"
    by code_simp
  then have "\<exists>events c1. receive_data_loop sample_env d0 [] = Some (Inr events, c1)
               \<and> (events = [Paused DONE]
                    \<and> int (length (u_receive_buffer c1)) > u_max_buffer_size c1)"
    unfolding d0_def by (rule option_case_SomeInr)
  then obtain cc where c2: "receive_data_loop sample_env d0 [] = Some (Inr [Paused DONE], cc)"
    and c3: "int (length (u_receive_buffer cc)) > u_max_buffer_size cc"
    by blast
  have c4: "their_state ?C \<noteq> ERROR" by code_simp
  have c5: "[Paused DONE] \<noteq> [] \<and> type_of (last [Paused DONE]) = PausedT" by simp
  note c6 = receive_buffer_limit [of sample_env ?C "Some ''hello''" "[Paused DONE]" _ d0 cc,
              THEN conjunct2, THEN mp, OF conjI [OF c4 conjI [OF c1 c2]], THEN conjunct2,
              THEN mp, OF c5]
  have C: "\<exists>events c1. receive_data sample_env ?C (Some ''hello'') = Some (Inr events, c1)
                 \<and> events = [Paused DONE]
                 \<and> int (length (u_receive_buffer c1)) > u_max_buffer_size c1"
    by (rule exI [where x = "[Paused DONE]"], rule exI [where x = cc])
       (rule conjI [OF c6 conjI [OF refl c3]])
  show ?thesis by (rule conjI [OF A conjI [OF B C]])
qed

subsection \<open>C6: end of file\<close>

text \<open>
  C6. When the active reader returns no event, leaves the receive buffer empty and the
  peer has half-closed, the next receive event is the outcome of the reader's
  \<^verbatim>\<open>read_eof()\<close> if the reader has that hook, and ConnectionClosed otherwise. And when the
  parse loop has ended normally, the peer has half-closed and the final event is neither
  Paused nor ConnectionClosed (or there is no event), \<^verbatim>\<open>receive_data\<close> raises a protocol
  error.
\<close>

theorem end_of_file_events:
  "(their_state c \<noteq> MIGHT_SWITCH_PROTOCOL \<and> their_state c \<noteq> SWITCHED_PROTOCOL
      \<and> \<not> (their_state c = DONE \<and> u_receive_buffer c \<noteq> [])
      \<and> u_reader c = Some r
      \<and> call_reader env r (u_receive_buffer c) = (Inr None, r1, [])
      \<and> u_receive_buffer_closed c
      \<longrightarrow> fst (u_next_receive_event env c)
            = (case read_eof env r1 of
                 Some (outcome, r2) \<Rightarrow> outcome
               | None \<Rightarrow> Inr (Some ConnectionClosed)))
   \<and> (their_state c \<noteq> ERROR
      \<and> receive_data_update_buffer c data = (Inr (), c0)
      \<and> receive_data_loop env c0 [] = Some (Inr events, c1)
      \<and> u_receive_buffer_closed c1
      \<and> (events = [] \<or> type_of (last events) \<notin> {PausedT, ConnectionClosedT})
      \<longrightarrow> (\<exists>msg hint.
             receive_data env c data
               = Some (Inl (ProtocolError msg hint), snd (u_process_error env c1 (their_role c1)))))"
proof (intro conjI impI)
  assume "their_state c \<noteq> MIGHT_SWITCH_PROTOCOL \<and> their_state c \<noteq> SWITCHED_PROTOCOL
      \<and> \<not> (their_state c = DONE \<and> u_receive_buffer c \<noteq> [])
      \<and> u_reader c = Some r
      \<and> call_reader env r (u_receive_buffer c) = (Inr None, r1, [])
      \<and> u_receive_buffer_closed c"
  then show "fst (u_next_receive_event env c)
            = (case read_eof env r1 of
                 Some (outcome, r2) \<Rightarrow> outcome
               | None \<Rightarrow> Inr (Some ConnectionClosed))"
    by (auto simp: u_next_receive_event_def Let_def split: option.splits)
next
  assume h: "their_state c \<noteq> ERROR
      \<and> receive_data_update_buffer c data = (Inr (), c0)
      \<and> receive_data_loop env c0 [] = Some (Inr events, c1)
      \<and> u_receive_buffer_closed c1
      \<and> (events = [] \<or> type_of (last events) \<notin> {PausedT, ConnectionClosedT})"
  then have "\<exists>msg hint. receive_data_try env c data = Some (Inl (ProtocolError msg hint), c1)"
    using receive_data_try_after_loop [of c data c0 env events c1]
    by (auto simp: receive_data_finish_def)
  with h show "\<exists>msg hint.
             receive_data env c data
               = Some (Inl (ProtocolError msg hint), snd (u_process_error env c1 (their_role c1)))"
    using receive_data_raises by blast
qed

text \<open>
  The theorem on the sample registry: the HTTP/1.0 body reader has the hook and yields
  EndOfMessage; the content-length reader has none, so ConnectionClosed is the event; and
  a server that holds an unfinished request line when the peer closes raises a protocol
  error.
\<close>

theorem end_of_file_events_witness:
  "fst (u_next_receive_event sample_env
          ((sample_connection CLIENT DONE SEND_BODY)
             \<lparr>u_reader := Some Http10Reader, u_receive_buffer_closed := True\<rparr>))
     = Inr (Some (EndOfMessage []))
   \<and> fst (u_next_receive_event sample_env
            ((sample_connection CLIENT DONE SEND_BODY)
               \<lparr>u_reader := Some (ContentLengthReader 3), u_receive_buffer_closed := True\<rparr>))
       = Inr (Some ConnectionClosed)
   \<and> (\<exists>msg hint c'.
         receive_data sample_env
           ((sample_connection SERVER IDLE IDLE)\<lparr>u_receive_buffer := ''GET /''\<rparr>) (Some [])
           = Some (Inl (ProtocolError msg hint), c'))"
proof -
  let ?H = "(sample_connection CLIENT DONE SEND_BODY)
             \<lparr>u_reader := Some Http10Reader, u_receive_buffer_closed := True\<rparr>"
  let ?L = "(sample_connection CLIENT DONE SEND_BODY)
             \<lparr>u_reader := Some (ContentLengthReader 3), u_receive_buffer_closed := True\<rparr>"
  let ?S = "(sample_connection SERVER IDLE IDLE)\<lparr>u_receive_buffer := ''GET /''\<rparr>"
  have h: "their_state ?H \<noteq> MIGHT_SWITCH_PROTOCOL \<and> their_state ?H \<noteq> SWITCHED_PROTOCOL
      \<and> \<not> (their_state ?H = DONE \<and> u_receive_buffer ?H \<noteq> [])
      \<and> u_reader ?H = Some Http10Reader
      \<and> call_reader sample_env Http10Reader (u_receive_buffer ?H) = (Inr None, Http10Reader, [])
      \<and> u_receive_buffer_closed ?H"
    by code_simp
  have he: "read_eof sample_env Http10Reader = Some (Inr (Some (EndOfMessage [])), Http10Reader)"
    by code_simp
  have H: "fst (u_next_receive_event sample_env ?H) = Inr (Some (EndOfMessage []))"
    using end_of_file_events [of ?H Http10Reader sample_env Http10Reader, THEN conjunct1,
            THEN mp, OF h]
    by (simp only: he option.case prod.case)
  have l: "their_state ?L \<noteq> MIGHT_SWITCH_PROTOCOL \<and> their_state ?L \<noteq> SWITCHED_PROTOCOL
      \<and> \<not> (their_state ?L = DONE \<and> u_receive_buffer ?L \<noteq> [])
      \<and> u_reader ?L = Some (ContentLengthReader 3)
      \<and> call_reader sample_env (ContentLengthReader 3) (u_receive_buffer ?L)
          = (Inr None, ContentLengthReader 3, [])
      \<and> u_receive_buffer_closed ?L"
    by code_simp
  have le: "read_eof sample_env (ContentLengthReader 3) = None"
    by code_simp
  have L: "fst (u_next_receive_event sample_env ?L) = Inr (Some ConnectionClosed)"
    using end_of_file_events [of ?L "ContentLengthReader 3" sample_env "ContentLengthReader 3",
            THEN conjunct1, THEN mp, OF l]
    by (simp only: le option.case)
  define s0 where "s0 = snd (receive_data_update_buffer ?S (Some []))"
  have "fst (receive_data_update_buffer ?S (Some [])) = Inr ()" by code_simp
  then have s1: "receive_data_update_buffer ?S (Some []) = (Inr (), s0)"
    using update_buffer_pair [of ?S "Some []"] by (simp add: s0_def)
  have "(case receive_data_loop sample_env (snd (receive_data_update_buffer ?S (Some []))) [] of
           Some (Inr events, c1) \<Rightarrow> events = [] \<and> u_receive_buffer_closed c1
         | _ \<Rightarrow> False)"
    by code_simp
  then have "\<exists>events c1. receive_data_loop sample_env s0 [] = Some (Inr events, c1)
               \<and> (events = [] \<and> u_receive_buffer_closed c1)"
    unfolding s0_def by (rule option_case_SomeInr)
  then obtain cs where s2: "receive_data_loop sample_env s0 [] = Some (Inr [], cs)"
    and s3: "u_receive_buffer_closed cs"
    by blast
  have s4: "their_state ?S \<noteq> ERROR" by code_simp
  have s5: "[] = [] \<or> type_of (last []) \<notin> {PausedT, ConnectionClosedT}" by simp
  from end_of_file_events [of ?S _ sample_env _ "Some []" s0 "[]" cs, THEN conjunct2,
         THEN mp, OF conjI [OF s4 conjI [OF s1 conjI [OF s2 conjI [OF s3 s5]]]]]
  obtain msg hint where s6: "receive_data sample_env ?S (Some [])
      = Some (Inl (ProtocolError msg hint), snd (u_process_error sample_env cs (their_role cs)))"
    by (elim exE)
  have S: "\<exists>msg hint c'. receive_data sample_env ?S (Some [])
             = Some (Inl (ProtocolError msg hint), c')"
    by (rule exI [where x = msg], rule exI [where x = hint],
        rule exI [where x = "snd (u_process_error sample_env cs (their_role cs))"]) (rule s6)
  show ?thesis by (rule conjI [OF H conjI [OF L S]])
qed

subsection \<open>C9: reuse of the connection\<close>

text \<open>
  C9. \<^verbatim>\<open>prepare_to_reuse\<close> succeeds only when both roles are in DONE, \<^verbatim>\<open>keep_alive\<close> is
  true and \<^verbatim>\<open>client_is_waiting_for_100_continue\<close> is false, and under these conditions it
  does succeed; after it both roles are IDLE, the request method is cleared and
  \<^verbatim>\<open>their_http_version\<close> is what it was. When the roles are not both in DONE or
  \<^verbatim>\<open>keep_alive\<close> is false it raises a protocol error and the connection is unchanged.
\<close>

theorem prepare_to_reuse_resets_both_roles:
  "(prepare_to_reuse env c = (Inr (), c') \<longrightarrow>
      states (u_cstate c) CLIENT = DONE \<and> states (u_cstate c) SERVER = DONE
      \<and> keep_alive (u_cstate c) \<and> \<not> client_is_waiting_for_100_continue c
      \<and> states (u_cstate c') CLIENT = IDLE \<and> states (u_cstate c') SERVER = IDLE
      \<and> u_request_method c' = None
      \<and> their_http_version c' = their_http_version c)
   \<and> (states (u_cstate c) CLIENT = DONE \<and> states (u_cstate c) SERVER = DONE
        \<and> keep_alive (u_cstate c) \<and> \<not> client_is_waiting_for_100_continue c
      \<longrightarrow> fst (prepare_to_reuse env c) = Inr ())
   \<and> (\<not> (states (u_cstate c) CLIENT = DONE \<and> states (u_cstate c) SERVER = DONE
            \<and> keep_alive (u_cstate c))
      \<longrightarrow> (\<exists>msg hint. prepare_to_reuse env c = (Inl (ProtocolError msg hint), c)))"
proof -
  let ?c1 = "c\<lparr>u_cstate := (u_cstate c)\<lparr>states := (\<lambda>_. IDLE)\<rparr>, u_request_method := None\<rparr>"
  have p1: "prepare_to_reuse env c = (Inr (), c') \<longrightarrow>
      states (u_cstate c) CLIENT = DONE \<and> states (u_cstate c) SERVER = DONE
      \<and> keep_alive (u_cstate c) \<and> \<not> client_is_waiting_for_100_continue c
      \<and> states (u_cstate c') CLIENT = IDLE \<and> states (u_cstate c') SERVER = IDLE
      \<and> u_request_method c' = None
      \<and> their_http_version c' = their_http_version c"
  proof
    assume ok: "prepare_to_reuse env c = (Inr (), c')"
    note pre = prepare_to_reuse_success [OF ok]
    have "prepare_to_reuse env c = u_respond_to_state_changes env ?c1 (states (u_cstate c)) None"
      by (rule prepare_to_reuse_run) (use pre in simp_all)
    with ok have c': "c' = snd (u_respond_to_state_changes env ?c1 (states (u_cstate c)) None)"
      by simp
    show "states (u_cstate c) CLIENT = DONE \<and> states (u_cstate c) SERVER = DONE
        \<and> keep_alive (u_cstate c) \<and> \<not> client_is_waiting_for_100_continue c
        \<and> states (u_cstate c') CLIENT = IDLE \<and> states (u_cstate c') SERVER = IDLE
        \<and> u_request_method c' = None
        \<and> their_http_version c' = their_http_version c"
      using pre by (simp add: c' respond_frame)
  qed
  have p2: "states (u_cstate c) CLIENT = DONE \<and> states (u_cstate c) SERVER = DONE
        \<and> keep_alive (u_cstate c) \<and> \<not> client_is_waiting_for_100_continue c
      \<longrightarrow> fst (prepare_to_reuse env c) = Inr ()"
  proof
    assume pre: "states (u_cstate c) CLIENT = DONE \<and> states (u_cstate c) SERVER = DONE
          \<and> keep_alive (u_cstate c) \<and> \<not> client_is_waiting_for_100_continue c"
    have "prepare_to_reuse env c = u_respond_to_state_changes env ?c1 (states (u_cstate c)) None"
      by (rule prepare_to_reuse_run) (use pre in simp_all)
    moreover have "fst (u_respond_to_state_changes env ?c1 (states (u_cstate c)) None) = Inr ()"
      by (rule respond_ok) (simp_all add: our_state_def their_state_def)
    ultimately show "fst (prepare_to_reuse env c) = Inr ()" by simp
  qed
  have p3: "\<not> (states (u_cstate c) CLIENT = DONE \<and> states (u_cstate c) SERVER = DONE
            \<and> keep_alive (u_cstate c))
      \<longrightarrow> (\<exists>msg hint. prepare_to_reuse env c = (Inl (ProtocolError msg hint), c))"
    using prepare_to_reuse_fails [of c env] by blast
  show ?thesis by (rule conjI [OF p1 conjI [OF p2 p3]])
qed

text \<open>
  The theorem at a client whose exchange is complete, and at a client whose server must
  close.
\<close>

theorem prepare_to_reuse_resets_both_roles_witness:
  "(\<exists>c'. prepare_to_reuse sample_env
            ((sample_connection CLIENT DONE DONE)
               \<lparr>their_http_version := Some ''1.1'', u_request_method := Some ''GET''\<rparr>)
          = (Inr (), c')
        \<and> states (u_cstate c') CLIENT = IDLE \<and> states (u_cstate c') SERVER = IDLE
        \<and> u_request_method c' = None \<and> their_http_version c' = Some ''1.1'')
   \<and> (\<exists>msg hint. prepare_to_reuse sample_env (sample_connection CLIENT DONE MUST_CLOSE)
                  = (Inl (ProtocolError msg hint), sample_connection CLIENT DONE MUST_CLOSE))"
proof -
  let ?c = "(sample_connection CLIENT DONE DONE)
               \<lparr>their_http_version := Some ''1.1'', u_request_method := Some ''GET''\<rparr>"
  let ?d = "sample_connection CLIENT DONE MUST_CLOSE"
  have pre: "states (u_cstate ?c) CLIENT = DONE \<and> states (u_cstate ?c) SERVER = DONE
        \<and> keep_alive (u_cstate ?c) \<and> \<not> client_is_waiting_for_100_continue ?c"
    by code_simp
  have v: "their_http_version ?c = Some ''1.1''" by code_simp
  define c' where "c' = snd (prepare_to_reuse sample_env ?c)"
  note T = prepare_to_reuse_resets_both_roles [of sample_env ?c c']
  have "fst (prepare_to_reuse sample_env ?c) = Inr ()"
    using T [THEN conjunct2, THEN conjunct1, THEN mp, OF pre] .
  then have run: "prepare_to_reuse sample_env ?c = (Inr (), c')"
    unfolding c'_def by (metis prod.collapse)
  note post = T [THEN conjunct1, THEN mp, OF run]
  have A: "\<exists>c'. prepare_to_reuse sample_env ?c = (Inr (), c')
        \<and> states (u_cstate c') CLIENT = IDLE \<and> states (u_cstate c') SERVER = IDLE
        \<and> u_request_method c' = None \<and> their_http_version c' = Some ''1.1''"
    using run post v by (intro exI [where x = c']) simp
  have npre: "\<not> (states (u_cstate ?d) CLIENT = DONE \<and> states (u_cstate ?d) SERVER = DONE
            \<and> keep_alive (u_cstate ?d))"
    by code_simp
  note B = prepare_to_reuse_resets_both_roles [of sample_env ?d, THEN conjunct2, THEN conjunct2,
             THEN mp, OF npre]
  show ?thesis by (rule conjI [OF A B])
qed

subsection \<open>C3: the keep-alive latch\<close>

text \<open>
  C3. \<^verbatim>\<open>_keep_alive\<close> is false for a Request or Response exactly when its Connection
  header, read as a comma-separated list, contains \<open>close\<close> or its HTTP version is below
  1.1. An event that \<^verbatim>\<open>_process_event\<close> processes to the end leaves \<^verbatim>\<open>keep_alive\<close> true
  exactly when it was true before and the event is not a Request or Response for which
  \<^verbatim>\<open>_keep_alive\<close> is false. Whether or not the processing succeeds, \<^verbatim>\<open>keep_alive\<close> goes
  from true to false only by such a Request or Response, never goes from false to true,
  and is left as it was by every event of another type, an InformationalResponse among
  them. The error handler leaves it as it was too.
\<close>

theorem keep_alive_latch:
  "u_keep_alive (Request m t hs v)
     = Inr (''close'' \<notin> set (get_comma_header hs ''Connection'') \<and> \<not> v < ''1.1'')
   \<and> u_keep_alive (Response sc hs v)
       = Inr (''close'' \<notin> set (get_comma_header hs ''Connection'') \<and> \<not> v < ''1.1'')
   \<and> (fst (u_process_event env c role event) = Inr () \<longrightarrow>
        keep_alive (u_cstate (snd (u_process_event env c role event)))
          = (keep_alive (u_cstate c)
             \<and> \<not> (type_of event \<in> {RequestT, ResponseT} \<and> u_keep_alive event = Inr False)))
   \<and> (keep_alive (u_cstate c) \<and> \<not> keep_alive (u_cstate (snd (u_process_event env c role event)))
        \<longrightarrow> type_of event \<in> {RequestT, ResponseT} \<and> u_keep_alive event = Inr False)
   \<and> (\<not> keep_alive (u_cstate c)
        \<longrightarrow> \<not> keep_alive (u_cstate (snd (u_process_event env c role event))))
   \<and> (type_of event \<notin> {RequestT, ResponseT} \<longrightarrow>
        keep_alive (u_cstate (snd (u_process_event env c role event))) = keep_alive (u_cstate c))
   \<and> keep_alive (u_cstate (snd (u_process_error env c role))) = keep_alive (u_cstate c)"
proof -
  note K = process_event_keep_alive_cases [of env c role event]
  have p3: "fst (u_process_event env c role event) = Inr () \<longrightarrow>
        keep_alive (u_cstate (snd (u_process_event env c role event)))
          = (keep_alive (u_cstate c)
             \<and> \<not> (type_of event \<in> {RequestT, ResponseT} \<and> u_keep_alive event = Inr False))"
  proof
    assume "fst (u_process_event env c role event) = Inr ()"
    from process_event_accepted [OF this] K
    show "keep_alive (u_cstate (snd (u_process_event env c role event)))
          = (keep_alive (u_cstate c)
             \<and> \<not> (type_of event \<in> {RequestT, ResponseT} \<and> u_keep_alive event = Inr False))"
      by simp
  qed
  have p4: "keep_alive (u_cstate c) \<and> \<not> keep_alive (u_cstate (snd (u_process_event env c role event)))
        \<longrightarrow> type_of event \<in> {RequestT, ResponseT} \<and> u_keep_alive event = Inr False"
    unfolding K by blast
  have p5: "\<not> keep_alive (u_cstate c)
        \<longrightarrow> \<not> keep_alive (u_cstate (snd (u_process_event env c role event)))"
    unfolding K by blast
  have p6: "type_of event \<notin> {RequestT, ResponseT} \<longrightarrow>
        keep_alive (u_cstate (snd (u_process_event env c role event))) = keep_alive (u_cstate c)"
    unfolding K by blast
  have p7: "keep_alive (u_cstate (snd (u_process_error env c role))) = keep_alive (u_cstate c)"
    by (simp add: process_error_frame cs_process_error_def)
  show ?thesis
    by (rule conjI [OF u_keep_alive_request conjI [OF u_keep_alive_response
          conjI [OF p3 conjI [OF p4 conjI [OF p5 conjI [OF p6 p7]]]]]])
qed

text \<open>
  The theorem on the sample registry: a client's request with \<^verbatim>\<open>Connection: close\<close>
  latches \<^verbatim>\<open>keep_alive\<close> to false; a 100 response with \<^verbatim>\<open>Connection: close\<close> and
  version 1.0 leaves it true.
\<close>

theorem keep_alive_latch_witness:
  "fst (u_process_event sample_env (sample_connection CLIENT IDLE IDLE) CLIENT
          (Request ''GET'' ''/'' [(''Connection'', ''close'')] ''1.1'')) = Inr ()
   \<and> u_keep_alive (Request ''GET'' ''/'' [(''Connection'', ''close'')] ''1.1'') = Inr False
   \<and> keep_alive (u_cstate (sample_connection CLIENT IDLE IDLE))
   \<and> \<not> keep_alive (u_cstate (snd (u_process_event sample_env (sample_connection CLIENT IDLE IDLE)
          CLIENT (Request ''GET'' ''/'' [(''Connection'', ''close'')] ''1.1''))))
   \<and> keep_alive (u_cstate (snd (u_process_event sample_env
          (sample_connection SERVER DONE SEND_RESPONSE) SERVER
          (InformationalResponse 100 [(''Connection'', ''close'')] ''1.0''))))"
proof -
  let ?c = "sample_connection CLIENT IDLE IDLE"
  let ?e = "Request ''GET'' ''/'' [(''Connection'', ''close'')] ''1.1''"
  let ?d = "sample_connection SERVER DONE SEND_RESPONSE"
  let ?i = "InformationalResponse 100 [(''Connection'', ''close'')] ''1.0''"
  have a: "fst (u_process_event sample_env ?c CLIENT ?e) = Inr ()" by code_simp
  have b: "u_keep_alive ?e = Inr False" by code_simp
  have k: "keep_alive (u_cstate ?c)" by code_simp
  have t: "type_of ?e \<in> {RequestT, ResponseT}" by simp
  have "keep_alive (u_cstate (snd (u_process_event sample_env ?c CLIENT ?e)))
          = (keep_alive (u_cstate ?c)
             \<and> \<not> (type_of ?e \<in> {RequestT, ResponseT} \<and> u_keep_alive ?e = Inr False))"
    by (rule keep_alive_latch [of _ _ _ _ _ sample_env ?c CLIENT ?e,
          THEN conjunct2, THEN conjunct2, THEN conjunct1, THEN mp, OF a])
  then have n: "\<not> keep_alive (u_cstate (snd (u_process_event sample_env ?c CLIENT ?e)))"
    using t b by (simp only: simp_thms)
  have ti: "type_of ?i \<notin> {RequestT, ResponseT}" by simp
  have kd: "keep_alive (u_cstate ?d)" by code_simp
  have "keep_alive (u_cstate (snd (u_process_event sample_env ?d SERVER ?i)))
          = keep_alive (u_cstate ?d)"
    by (rule keep_alive_latch [of _ _ _ _ _ sample_env ?d SERVER ?i,
          THEN conjunct2, THEN conjunct2, THEN conjunct2, THEN conjunct2, THEN conjunct2,
          THEN conjunct1, THEN mp, OF ti])
  then have i: "keep_alive (u_cstate (snd (u_process_event sample_env ?d SERVER ?i)))"
    using kd by (simp only: simp_thms)
  show ?thesis by (rule conjI [OF a conjI [OF b conjI [OF k conjI [OF n i]]]])
qed

subsection \<open>C2: the headers of a response that is sent\<close>



subsection \<open>Events that have been built\<close>










subsection \<open>C1: the body framing of an event\<close>




subsection \<open>C8: a Transfer-Encoding other than chunked\<close>



end
